theory Spec2Isabelle
  imports Main
begin

section \<open>Text helpers of the JavaScript runtime\<close>

text \<open>
  Text is modelled as ASCII: a \<open>string\<close> is the list of the characters of the JavaScript
  string. \<open>String.prototype.trim\<close> strips white space and line terminators from both ends;
  in the ASCII range these are tab, line feed, vertical tab, form feed, carriage return
  and space.
\<close>

definition is_space :: "char \<Rightarrow> bool" where
  "is_space c \<longleftrightarrow> (of_char c :: nat) \<in> {9, 10, 11, 12, 13, 32}"

definition trim :: "string \<Rightarrow> string" where
  "trim s = rev (dropWhile is_space (rev (dropWhile is_space s)))"

text \<open>\<open>toUpperCase\<close> on ASCII text: the letters a..z move to A..Z, every other character stays.\<close>

definition upper_char :: "char \<Rightarrow> char" where
  "upper_char c =
     (if 97 \<le> (of_char c :: nat) \<and> (of_char c :: nat) \<le> 122
      then char_of ((of_char c :: nat) - 32) else c)"

definition toUpperCase :: "string \<Rightarrow> string" where
  "toUpperCase s = map upper_char s"

text \<open>
  \<open>s.substring(start, stop)\<close> with non-negative indices: both are clamped to the length,
  swapped when out of order, and the characters from the smaller (inclusive) to the larger
  (exclusive) are returned.
\<close>

definition substring :: "string \<Rightarrow> nat \<Rightarrow> nat \<Rightarrow> string" where
  "substring s start stop =
     (let st = min start (length s); en = min stop (length s)
      in take (max st en - min st en) (drop (min st en) s))"

section \<open>The four tables\<close>

type_synonym uuid = string
type_synonym timestamp = nat

text \<open>
  The rows as the interfaces \<open>Room\<close>, \<open>Player\<close>, \<open>Question\<close>, \<open>Answer\<close> of
  \<open>lib/supabase\<close> declare them; the field prefix names the table. The clients write and
  filter a \<open>room_id\<close> on answers (insert in \<open>submitAnswer\<close>, delete in \<open>sendQuestion\<close> and
  \<open>endGame\<close>, select in \<open>loadAnswersForQuestion\<close>), so the answer row carries it; the value
  written is the nullable \<open>playerRoomIdRef.current\<close>, and no constraint is declared on it.
  Scores are integers without a bound.
\<close>

record Room =
  r_id :: uuid
  r_code :: string
  r_name :: string
  r_host_id :: "uuid option"
  r_is_active :: bool
  r_created_at :: timestamp

record Player =
  p_id :: uuid
  p_pseudo :: string
  p_room_id :: uuid
  p_score :: int
  p_is_connected :: bool
  p_joined_at :: timestamp

record Question =
  q_id :: uuid
  q_room_id :: uuid
  q_text :: string
  q_correct_answer :: "string option"
  q_is_active :: bool
  q_created_at :: timestamp

record Answer =
  a_id :: uuid
  a_player_id :: uuid
  a_question_id :: uuid
  a_room_id :: "uuid option"
  a_text :: string
  a_response_time :: int
  a_is_correct :: bool
  a_submitted_at :: timestamp

text \<open>
  The database is the four tables, each a list of rows in insertion order. A statement a
  client issues is executed on the tables as far as the migration lets it: its constraints
  (primary keys, the unique room code, the foreign keys with \<open>ON DELETE CASCADE\<close>) reject a
  row, and its row-level security decides which rows the client sees and changes. The storage
  bucket of question files and transport failures are outside the model.
\<close>

record DB =
  rooms :: "Room list"
  players :: "Player list"
  questions :: "Question list"
  answers :: "Answer list"

datatype db_error = UniqueViolation | ForeignKeyViolation

text \<open>\<open>.single()\<close>: the one selected row, an error unless exactly one row was selected.\<close>

fun single :: "'a list \<Rightarrow> 'a option" where
  "single [x] = Some x"
| "single _ = None"

subsection \<open>Row-level security\<close>

text \<open>
  The migration enables row-level security on the four tables, and the clients connect with
  the anonymous key, so every statement of theirs is subject to the policies declared for the
  public role. These let a client select the active rooms
  (\<open>USING (is_active = true)\<close>) and every player, question and answer, insert any row
  (\<open>WITH CHECK (true)\<close>) and update any row (\<open>USING (true)\<close>). No policy is declared
  \<open>FOR DELETE\<close> on any table: a \<open>DELETE\<close> of a client finds no row it may delete, removes
  nothing and reports no error. Constraints and cascades are not subject to the policies.
\<close>

definition rooms_select_policy :: "Room \<Rightarrow> bool" where
  "rooms_select_policy r = r_is_active r"

definition delete_policy :: "'a \<Rightarrow> bool" where
  "delete_policy row = False"

subsection \<open>Inserts\<close>

text \<open>
  The generated primary key (\<open>gen_random_uuid()\<close>) and the clock (\<open>now()\<close>) are inputs
  of the model; a key that is already present is rejected as the primary key constraint does.
\<close>

definition rooms_insert :: "Room \<Rightarrow> DB \<Rightarrow> db_error + DB" where
  "rooms_insert row db =
     (if r_id row \<in> set (map r_id (rooms db)) \<or> r_code row \<in> set (map r_code (rooms db))
      then Inl UniqueViolation
      else Inr (db\<lparr>rooms := rooms db @ [row]\<rparr>))"


definition questions_insert :: "Question \<Rightarrow> DB \<Rightarrow> db_error + DB" where
  "questions_insert row db =
     (if q_id row \<in> set (map q_id (questions db)) then Inl UniqueViolation
      else if q_room_id row \<notin> set (map r_id (rooms db)) then Inl ForeignKeyViolation
      else Inr (db\<lparr>questions := questions db @ [row]\<rparr>))"

definition answers_insert :: "Answer \<Rightarrow> DB \<Rightarrow> db_error + DB" where
  "answers_insert row db =
     (if a_id row \<in> set (map a_id (answers db)) then Inl UniqueViolation
      else if a_player_id row \<notin> set (map p_id (players db)) then Inl ForeignKeyViolation
      else if a_question_id row \<notin> set (map q_id (questions db)) then Inl ForeignKeyViolation
      else Inr (db\<lparr>answers := answers db @ [row]\<rparr>))"

subsection \<open>Updates and deletes\<close>

text \<open>\<open>from("questions").update({is_active: false}).eq("room_id", r).eq("is_active", true)\<close>\<close>

definition questions_deactivate :: "uuid \<Rightarrow> DB \<Rightarrow> DB" where
  "questions_deactivate r db =
     db\<lparr>questions :=
          map (\<lambda>q. if q_room_id q = r \<and> q_is_active q then q\<lparr>q_is_active := False\<rparr> else q)
              (questions db)\<rparr>"

text \<open>\<open>from("answers").update({is_correct: true}).eq("id", i)\<close>\<close>

definition answers_set_correct :: "uuid \<Rightarrow> DB \<Rightarrow> DB" where
  "answers_set_correct i db =
     db\<lparr>answers := map (\<lambda>a. if a_id a = i then a\<lparr>a_is_correct := True\<rparr> else a) (answers db)\<rparr>"

text \<open>\<open>from("players").update({score: s}).eq("id", i)\<close>\<close>

definition players_set_score :: "uuid \<Rightarrow> int \<Rightarrow> DB \<Rightarrow> DB" where
  "players_set_score i s db =
     db\<lparr>players := map (\<lambda>p. if p_id p = i then p\<lparr>p_score := s\<rparr> else p) (players db)\<rparr>"

text \<open>
  \<open>from("answers").delete().eq("room_id", r)\<close>: the rows that match and that the client may
  delete are removed.
\<close>

definition answers_delete_room :: "uuid \<Rightarrow> DB \<Rightarrow> DB" where
  "answers_delete_room r db =
     db\<lparr>answers := filter (\<lambda>a. \<not> (a_room_id a = Some r \<and> delete_policy a)) (answers db)\<rparr>"




section \<open>The home page: createRoom and joinRoom\<close>

text \<open>
  \<open>generateRoomCode\<close> is \<open>Math.random().toString(36).substring(2, 8).toUpperCase()\<close>. The
  base-36 rendering of the random number (\<open>0.\<close> followed by its digits) is the input
  \<open>rnd\<close> of the model.
\<close>

definition generateRoomCode :: "string \<Rightarrow> string" where
  "generateRoomCode rnd = toUpperCase (substring rnd 2 8)"

text \<open>
  \<open>createRoom\<close> inserts one room with a generated code and routes to the host page of the
  new id; an insert error is thrown, caught and reported by an alert. \<open>hostId\<close> is
  \<open>crypto.randomUUID()\<close>.
\<close>

definition room_row :: "string \<Rightarrow> uuid \<Rightarrow> uuid \<Rightarrow> timestamp \<Rightarrow> Room" where
  "room_row rnd newId hostId now =
     \<lparr>r_id = newId, r_code = generateRoomCode rnd, r_name = ''Nouvelle partie'',
      r_host_id = Some hostId, r_is_active = True, r_created_at = now\<rparr>"

definition createRoom :: "DB \<Rightarrow> string \<Rightarrow> uuid \<Rightarrow> uuid \<Rightarrow> timestamp \<Rightarrow> (db_error + uuid) \<times> DB" where
  "createRoom db rnd newId hostId now =
     (case rooms_insert (room_row rnd newId hostId now) db of
        Inl e \<Rightarrow> (Inl e, db)
      | Inr db' \<Rightarrow> (Inr newId, db'))"



section \<open>The host client\<close>

text \<open>
  The state of \<open>HostClient\<close> that its commands read or write. An element of \<open>answers\<close> is
  an answer row with the player row joined to it by \<open>select("*, player:players(*)")\<close>.
  Notification, loading flag, dialog state and the uploaded question list are display only.
\<close>

record QuestionDraft =
  d_text :: string
  d_answer :: string

record HostAnswer =
  ha_row :: Answer
  ha_player :: "Player option"

record HostState =
  hs_room :: "Room option"
  hs_players :: "Player list"
  hs_currentQuestion :: "QuestionDraft option"
  hs_answers :: "HostAnswer list"
  hs_isGameEnded :: bool

text \<open>
  \<open>loadRoomData\<close>: the room by id and the players of the room ordered by score, highest
  first (players with equal scores in table order).
\<close>

definition loadRoomData :: "uuid \<Rightarrow> HostState \<Rightarrow> DB \<Rightarrow> HostState" where
  "loadRoomData roomId hs db =
     hs\<lparr>hs_room := single (filter (\<lambda>r. r_id r = roomId \<and> rooms_select_policy r) (rooms db)),
        hs_players := sort_key (\<lambda>p. - p_score p) (filter (\<lambda>p. p_room_id p = roomId) (players db))\<rparr>"

text \<open>
  \<open>loadAnswersForQuestion\<close>: the answers of the room's active question in order of
  submission (equal times in table order), each with its player; no answers when the room
  has not exactly one active question.
\<close>

definition loadAnswersForQuestion :: "uuid \<Rightarrow> HostState \<Rightarrow> DB \<Rightarrow> HostState" where
  "loadAnswersForQuestion roomId hs db =
     (case single (filter (\<lambda>q. q_room_id q = roomId \<and> q_is_active q) (questions db)) of
        None \<Rightarrow> hs\<lparr>hs_answers := []\<rparr>
      | Some activeQuestion \<Rightarrow>
          hs\<lparr>hs_answers :=
               map (\<lambda>a. \<lparr>ha_row = a, ha_player = find (\<lambda>p. p_id p = a_player_id a) (players db)\<rparr>)
                 (sort_key a_submitted_at
                    (filter (\<lambda>a. a_room_id a = Some roomId \<and> a_question_id a = q_id activeQuestion)
                       (answers db)))\<rparr>)"

datatype send_outcome =
    InvalidArgument
  | SendFailed db_error
  | Sent Question

text \<open>\<open>const questionToSend = questionData || currentQuestion\<close>\<close>

definition questionToSend :: "QuestionDraft option \<Rightarrow> HostState \<Rightarrow> QuestionDraft option" where
  "questionToSend questionData hs =
     (case questionData of Some qd \<Rightarrow> Some qd | None \<Rightarrow> hs_currentQuestion hs)"

text \<open>The row that \<open>sendQuestion\<close> inserts, with the generated id and creation time.\<close>

definition question_row :: "uuid \<Rightarrow> QuestionDraft \<Rightarrow> uuid \<Rightarrow> timestamp \<Rightarrow> Question" where
  "question_row roomId d newId now =
     \<lparr>q_id = newId, q_room_id = roomId, q_text = trim (d_text d),
      q_correct_answer = Some (trim (d_answer d)), q_is_active = True, q_created_at = now\<rparr>"

text \<open>
  \<open>sendQuestion(questionData?)\<close>. \<open>InvalidArgument\<close> is the early return with the
  notification "Veuillez saisir une question et une reponse"; \<open>SendFailed\<close> is the thrown
  "Failed to insert question", raised after the previous question was deactivated.
\<close>

definition sendQuestion ::
  "uuid \<Rightarrow> QuestionDraft option \<Rightarrow> HostState \<Rightarrow> DB \<Rightarrow> uuid \<Rightarrow> timestamp
     \<Rightarrow> send_outcome \<times> HostState \<times> DB" where
  "sendQuestion roomId questionData hs db newId now =
     (case questionToSend questionData hs of
        None \<Rightarrow> (InvalidArgument, hs, db)
      | Some d \<Rightarrow>
          if trim (d_text d) = [] \<or> trim (d_answer d) = []
          then (InvalidArgument, hs, db)
          else
            let db1 = questions_deactivate roomId db;
                row = question_row roomId d newId now
            in (case questions_insert row db1 of
                  Inl e \<Rightarrow> (SendFailed e, hs, db1)
                | Inr db2 \<Rightarrow>
                    (Sent row,
                     hs\<lparr>hs_answers := [],
                        hs_currentQuestion :=
                          Some \<lparr>d_text = q_text row,
                                d_answer = (case q_correct_answer row of Some s \<Rightarrow> s | None \<Rightarrow> [])\<rparr>\<rparr>,
                     answers_delete_room roomId db2)))"



text \<open>
  \<open>markAnswerCorrect(answer)\<close>: the argument is an element of the client's \<open>answers\<close>. The
  score written is the joined player's score plus one; afterwards answers and room data are
  loaded again.
\<close>

definition markAnswerCorrect :: "uuid \<Rightarrow> HostAnswer \<Rightarrow> HostState \<Rightarrow> DB \<Rightarrow> HostState \<times> DB" where
  "markAnswerCorrect roomId answer hs db =
     (if a_is_correct (ha_row answer) then (hs, db)
      else
        let db1 = answers_set_correct (a_id (ha_row answer)) db;
            db2 = players_set_score (a_player_id (ha_row answer))
                    ((case ha_player answer of Some p \<Rightarrow> p_score p | None \<Rightarrow> 0) + 1) db1
        in (loadRoomData roomId (loadAnswersForQuestion roomId hs db2) db2, db2))"

text \<open>
  \<open>updatePlayerScore(playerId, amount)\<close>: the player is looked up in the client's list of
  players, and the clamped score is written to the database and to that list.
\<close>

definition updatePlayerScore :: "uuid \<Rightarrow> int \<Rightarrow> HostState \<Rightarrow> DB \<Rightarrow> HostState \<times> DB" where
  "updatePlayerScore playerId amount hs db =
     (case find (\<lambda>p. p_id p = playerId) (hs_players hs) of
        None \<Rightarrow> (hs, db)
      | Some player \<Rightarrow>
          let newScore = max 0 (p_score player + amount)
          in (hs\<lparr>hs_players :=
                    map (\<lambda>p. if p_id p = playerId then p\<lparr>p_score := newScore\<rparr> else p)
                        (hs_players hs)\<rparr>,
              players_set_score playerId newScore db))"

section \<open>The player client\<close>

text \<open>
  The state of \<open>PlayClient\<close> that \<open>submitAnswer\<close> reads or writes.
  \<open>playerRoomIdRef\<close> is assigned the \<open>room_id\<close> of the player's row when the player is
  loaded.
\<close>

record PlayState =
  ps_currentQuestion :: "Question option"
  ps_answer :: string
  ps_hasAnswered :: bool
  ps_isSubmitting :: bool
  ps_questionStartTime :: int
  ps_responseTime :: "int option"
  ps_playerRoomIdRef :: "uuid option"

text \<open>
  \<open>loadPlayerData\<close>, as far as it sets this state: the player's row is read by id and its
  \<open>room_id\<close> is kept in \<open>playerRoomIdRef\<close>; the room's active question is read, and with
  it the player's stored answer to that question, which restores \<open>hasAnswered\<close>. \<open>None\<close> is
  the error shown when the id is empty or no such player is stored; the state above is then
  as before. \<open>clock\<close> is \<open>Date.now()\<close>. The connection flag and the leaderboard are not
  part of this state.
\<close>

definition loadPlayerData :: "uuid \<Rightarrow> PlayState \<Rightarrow> DB \<Rightarrow> int \<Rightarrow> PlayState option" where
  "loadPlayerData playerId ps db clock =
     (if playerId = [] then None
      else
        (case single (filter (\<lambda>p. p_id p = playerId) (players db)) of
           None \<Rightarrow> None
         | Some playerData \<Rightarrow>
             (case single (filter (\<lambda>q. q_room_id q = p_room_id playerData \<and> q_is_active q)
                             (questions db)) of
                None \<Rightarrow>
                  Some (ps\<lparr>ps_playerRoomIdRef := Some (p_room_id playerData),
                           ps_currentQuestion := None, ps_hasAnswered := False,
                           ps_answer := [], ps_responseTime := None\<rparr>)
              | Some questionData \<Rightarrow>
                  (case single (filter (\<lambda>a. a_player_id a = playerId \<and>
                                              a_question_id a = q_id questionData) (answers db)) of
                     Some existingAnswer \<Rightarrow>
                       Some (ps\<lparr>ps_playerRoomIdRef := Some (p_room_id playerData),
                                ps_currentQuestion := Some questionData,
                                ps_questionStartTime := clock, ps_hasAnswered := True,
                                ps_answer := a_text existingAnswer,
                                ps_responseTime := Some (a_response_time existingAnswer)\<rparr>)
                   | None \<Rightarrow>
                       Some (ps\<lparr>ps_playerRoomIdRef := Some (p_room_id playerData),
                                ps_currentQuestion := Some questionData,
                                ps_questionStartTime := clock, ps_hasAnswered := False,
                                ps_answer := [], ps_responseTime := None\<rparr>)))))"

datatype submit_outcome = Skipped | SubmitFailed db_error | Submitted

text \<open>
  The row that \<open>submitAnswer\<close> inserts: the trimmed answer, the time elapsed since the question
  was shown, \<open>is_correct: false\<close> and the room id held in \<open>playerRoomIdRef\<close>.
\<close>

definition answer_row :: "uuid \<Rightarrow> PlayState \<Rightarrow> Question \<Rightarrow> uuid \<Rightarrow> int \<Rightarrow> timestamp \<Rightarrow> Answer" where
  "answer_row playerId ps currentQuestion newId clock now =
     \<lparr>a_id = newId, a_player_id = playerId, a_question_id = q_id currentQuestion,
      a_room_id = ps_playerRoomIdRef ps, a_text = trim (ps_answer ps),
      a_response_time = clock - ps_questionStartTime ps,
      a_is_correct = False, a_submitted_at = now\<rparr>"

text \<open>
  \<open>submitAnswer\<close>: \<open>Skipped\<close> is the silent early return of the guard
  \<open>!answer.trim() || !currentQuestion || hasAnswered || isSubmitting\<close>, \<open>SubmitFailed\<close> the
  caught insert error with the notification "Erreur lors de l'envoi". \<open>clock\<close> is
  \<open>Date.now()\<close>.
\<close>

definition submitAnswer ::
  "uuid \<Rightarrow> PlayState \<Rightarrow> DB \<Rightarrow> uuid \<Rightarrow> int \<Rightarrow> timestamp \<Rightarrow> submit_outcome \<times> PlayState \<times> DB" where
  "submitAnswer playerId ps db newId clock now =
     (case ps_currentQuestion ps of
        None \<Rightarrow> (Skipped, ps, db)
      | Some currentQuestion \<Rightarrow>
          if trim (ps_answer ps) = [] \<or> ps_hasAnswered ps \<or> ps_isSubmitting ps
          then (Skipped, ps, db)
          else
            let responseTimeMs = clock - ps_questionStartTime ps
            in (case answers_insert (answer_row playerId ps currentQuestion newId clock now) db of
                  Inl e \<Rightarrow> (SubmitFailed e, ps\<lparr>ps_responseTime := None, ps_isSubmitting := False\<rparr>, db)
                | Inr db' \<Rightarrow>
                    (Submitted,
                     ps\<lparr>ps_responseTime := Some responseTimeMs, ps_hasAnswered := True,
                        ps_isSubmitting := False\<rparr>,
                     db')))"

section \<open>Observations and runs of commands\<close>

text \<open>The active questions of a room, as \<open>.eq("room_id", r).eq("is_active", true)\<close> selects them.\<close>

definition active_questions :: "uuid \<Rightarrow> DB \<Rightarrow> Question list" where
  "active_questions r db = filter (\<lambda>q. q_room_id q = r \<and> q_is_active q) (questions db)"

text \<open>The answers stored for a pair of player and question.\<close>

definition answers_of :: "uuid \<Rightarrow> uuid \<Rightarrow> DB \<Rightarrow> Answer list" where
  "answers_of p q db = filter (\<lambda>a. a_player_id a = p \<and> a_question_id a = q) (answers db)"

text \<open>
  A host issuing \<open>sendQuestion\<close> calls one after the other on a room; each call comes with its
  argument, the generated id and the time. The result lists the database after each call.
\<close>

fun sendQuestion_run ::
  "uuid \<Rightarrow> (QuestionDraft option \<times> uuid \<times> timestamp) list \<Rightarrow> HostState \<Rightarrow> DB \<Rightarrow> DB list" where
  "sendQuestion_run roomId [] hs db = []"
| "sendQuestion_run roomId ((questionData, newId, now) # calls) hs db =
     (case sendQuestion roomId questionData hs db newId now of
        (out, hs', db') \<Rightarrow> db' # sendQuestion_run roomId calls hs' db')"

text \<open>Likewise for \<open>updatePlayerScore\<close> calls, each with a player id and an amount.\<close>

fun updatePlayerScore_run :: "(uuid \<times> int) list \<Rightarrow> HostState \<Rightarrow> DB \<Rightarrow> DB list" where
  "updatePlayerScore_run [] hs db = []"
| "updatePlayerScore_run ((playerId, amount) # calls) hs db =
     (case updatePlayerScore playerId amount hs db of
        (hs', db') \<Rightarrow> db' # updatePlayerScore_run calls hs' db')"

section \<open>A sample game\<close>

text \<open>
  Two rooms. In room \<open>r1\<close> Alice and Bob have answered the active question; in room \<open>r2\<close>
  Carol's answer to the active question has been marked correct.
\<close>

definition demo_db :: DB where
  "demo_db =
     \<lparr>rooms =
        [\<lparr>r_id = ''r1'', r_code = ''AB12CD'', r_name = ''Nouvelle partie'', r_host_id = Some ''h1'',
          r_is_active = True, r_created_at = 1\<rparr>,
         \<lparr>r_id = ''r2'', r_code = ''ZZ99YY'', r_name = ''Nouvelle partie'', r_host_id = Some ''h2'',
          r_is_active = True, r_created_at = 2\<rparr>],
      players =
        [\<lparr>p_id = ''p1'', p_pseudo = ''Alice'', p_room_id = ''r1'', p_score = 0,
          p_is_connected = True, p_joined_at = 3\<rparr>,
         \<lparr>p_id = ''p2'', p_pseudo = ''Bob'', p_room_id = ''r1'', p_score = 0,
          p_is_connected = True, p_joined_at = 4\<rparr>,
         \<lparr>p_id = ''p3'', p_pseudo = ''Carol'', p_room_id = ''r2'', p_score = 1,
          p_is_connected = True, p_joined_at = 5\<rparr>],
      questions =
        [\<lparr>q_id = ''q1'', q_room_id = ''r1'', q_text = ''2+2?'', q_correct_answer = Some ''4'',
          q_is_active = True, q_created_at = 6\<rparr>,
         \<lparr>q_id = ''q2'', q_room_id = ''r2'', q_text = ''3+3?'', q_correct_answer = Some ''6'',
          q_is_active = True, q_created_at = 7\<rparr>],
      answers =
        [\<lparr>a_id = ''a1'', a_player_id = ''p1'', a_question_id = ''q1'', a_room_id = Some ''r1'',
          a_text = ''4'', a_response_time = 1200, a_is_correct = False, a_submitted_at = 8\<rparr>,
         \<lparr>a_id = ''a2'', a_player_id = ''p2'', a_question_id = ''q1'', a_room_id = Some ''r1'',
          a_text = ''5'', a_response_time = 1500, a_is_correct = False, a_submitted_at = 9\<rparr>,
         \<lparr>a_id = ''a3'', a_player_id = ''p3'', a_question_id = ''q2'', a_room_id = Some ''r2'',
          a_text = ''6'', a_response_time = 900, a_is_correct = True, a_submitted_at = 10\<rparr>]\<rparr>"

text \<open>The host page of room \<open>r1\<close> as it is mounted, and after it has loaded room and answers.\<close>

definition fresh_host :: HostState where
  "fresh_host =
     \<lparr>hs_room = None, hs_players = [], hs_currentQuestion = None, hs_answers = [],
      hs_isGameEnded = False\<rparr>"

definition demo_host :: HostState where
  "demo_host = loadRoomData ''r1'' (loadAnswersForQuestion ''r1'' fresh_host demo_db) demo_db"

text \<open>The sample with a second active question in room \<open>r1\<close>.\<close>

definition demo_db_two_active :: DB where
  "demo_db_two_active =
     demo_db\<lparr>questions := questions demo_db @
       [\<lparr>q_id = ''q0'', q_room_id = ''r1'', q_text = ''1+1?'', q_correct_answer = Some ''2'',
         q_is_active = True, q_created_at = 12\<rparr>]\<rparr>"

text \<open>
  The host of room \<open>r1\<close> gives Alice a point by hand. The change of the players table
  reaches the page through its subscription, which loads the room data again; the list of
  answers is loaded only on a change of the answers table and stays as it was.
\<close>

definition demo_adjusted :: "HostState \<times> DB" where
  "demo_adjusted =
     (case updatePlayerScore ''p1'' 1 demo_host demo_db of
        (hs1, db1) \<Rightarrow> (loadRoomData ''r1'' hs1 db1, db1))"

text \<open>The sample after the host of room \<open>r1\<close> has marked Alice's answer correct.\<close>

definition demo_db_graded :: DB where
  "demo_db_graded = snd (markAnswerCorrect ''r1'' (hd (hs_answers demo_host)) demo_host demo_db)"


text \<open>
  A player page of room \<open>r1\<close> for a third player Dave (\<open>p4\<close>, joined after the sample was
  taken) who sees question \<open>q1\<close> and has typed an answer.
\<close>

definition demo_db_dave :: DB where
  "demo_db_dave =
     demo_db\<lparr>players := players demo_db @
       [\<lparr>p_id = ''p4'', p_pseudo = ''Dave'', p_room_id = ''r1'', p_score = 0,
         p_is_connected = True, p_joined_at = 11\<rparr>]\<rparr>"

definition fresh_play :: PlayState where
  "fresh_play =
     \<lparr>ps_currentQuestion = None, ps_answer = [], ps_hasAnswered = False, ps_isSubmitting = False,
      ps_questionStartTime = 0, ps_responseTime = None, ps_playerRoomIdRef = None\<rparr>"

definition demo_play :: PlayState where
  "demo_play =
     \<lparr>ps_currentQuestion =
        Some \<lparr>q_id = ''q1'', q_room_id = ''r1'', q_text = ''2+2?'', q_correct_answer = Some ''4'',
              q_is_active = True, q_created_at = 6\<rparr>,
      ps_answer = '' four  '', ps_hasAnswered = False, ps_isSubmitting = False,
      ps_questionStartTime = 1000, ps_responseTime = None, ps_playerRoomIdRef = Some ''r1''\<rparr>"

section \<open>Manual score adjustment\<close>

lemma players_set_score_nonneg:
  assumes "0 \<le> s" and "\<forall>p\<in>set (players db). 0 \<le> p_score p"
  shows "\<forall>p\<in>set (players (players_set_score i s db)). 0 \<le> p_score p"
  using assms by (auto simp: players_set_score_def)

lemma updatePlayerScore_db:
  "snd (updatePlayerScore playerId amount hs db) =
     (case find (\<lambda>p. p_id p = playerId) (hs_players hs) of
        None \<Rightarrow> db
      | Some player \<Rightarrow> players_set_score playerId (max 0 (p_score player + amount)) db)"
  by (simp add: updatePlayerScore_def Let_def split: option.splits)

lemma updatePlayerScore_keeps_nonneg:
  assumes "\<forall>p\<in>set (players db). 0 \<le> p_score p"
  shows "\<forall>p\<in>set (players (snd (updatePlayerScore playerId amount hs db))). 0 \<le> p_score p"
proof (cases "find (\<lambda>p. p_id p = playerId) (hs_players hs)")
  case None
  with assms show ?thesis by (simp add: updatePlayerScore_db)
next
  case (Some player)
  have "(0::int) \<le> max 0 (p_score player + amount)" by simp
  from players_set_score_nonneg[OF this assms] Some show ?thesis
    by (simp add: updatePlayerScore_db)
qed

text \<open>
  The score a call writes is the clamped sum, whatever the amount: every row of the adjusted
  player holds \<open>max 0 (score + amount)\<close>, where \<open>score\<close> is the one the host page shows.
\<close>

lemma set_score_rows:
  "p \<in> set (map (\<lambda>p. if p_id p = i then p\<lparr>p_score := s\<rparr> else p) ps) \<Longrightarrow> p_id p = i
     \<Longrightarrow> p_score p = s"
proof (induction ps)
  case Nil
  then show ?case by simp
next
  case (Cons a ps)
  show ?case
  proof (cases "p \<in> set (map (\<lambda>p. if p_id p = i then p\<lparr>p_score := s\<rparr> else p) ps)")
    case True
    with Cons show ?thesis by blast
  next
    case False
    with Cons.prems have "p = (if p_id a = i then a\<lparr>p_score := s\<rparr> else a)" by simp
    with Cons.prems(2) show ?thesis by (cases "p_id a = i") simp_all
  qed
qed

lemma updatePlayerScore_writes_clamped:
  assumes "find (\<lambda>p. p_id p = playerId) (hs_players hs) = Some player"
    and "p \<in> set (players (snd (updatePlayerScore playerId amount hs db)))"
    and "p_id p = playerId"
  shows "p_score p = max 0 (p_score player + amount)"
proof -
  from assms(1,2)
  have "p \<in> set (map (\<lambda>p. if p_id p = playerId
                            then p\<lparr>p_score := max 0 (p_score player + amount)\<rparr> else p) (players db))"
    by (simp add: updatePlayerScore_db players_set_score_def)
  from set_score_rows[OF this assms(3)] show ?thesis .
qed

text \<open>
  C4. Scores start at 0 (the column default, and the value \<open>joinRoom\<close> inserts). From a database
  in which no score is negative, after each call of any sequence of \<open>updatePlayerScore\<close> calls,
  for any players and any integer amounts, no stored score is negative. The score a call
  writes for a player the page lists is the sum of the listed score and the amount, raised to
  0 when the sum is negative.
\<close>

theorem updatePlayerScore_never_negative:
  assumes "\<forall>p\<in>set (players db). 0 \<le> p_score p"
  shows "(\<forall>db'\<in>set (updatePlayerScore_run calls hs db). \<forall>p\<in>set (players db'). 0 \<le> p_score p) \<and>
         (\<forall>playerId amount hs0 db0 player.
            find (\<lambda>p. p_id p = playerId) (hs_players hs0) = Some player \<longrightarrow>
            (\<forall>p\<in>set (players (snd (updatePlayerScore playerId amount hs0 db0))).
               p_id p = playerId \<longrightarrow> p_score p = max 0 (p_score player + amount) \<and> 0 \<le> p_score p))"
proof
  show "\<forall>db'\<in>set (updatePlayerScore_run calls hs db). \<forall>p\<in>set (players db'). 0 \<le> p_score p"
    using assms
  proof (induction calls arbitrary: hs db)
    case Nil
    show ?case by simp
  next
    case (Cons c calls)
    obtain playerId amount where c: "c = (playerId, amount)" by (cases c)
    obtain hs' db' where step: "updatePlayerScore playerId amount hs db = (hs', db')"
      by (cases "updatePlayerScore playerId amount hs db")
    from updatePlayerScore_keeps_nonneg[OF Cons.prems, of playerId amount hs] step
    have ok: "\<forall>p\<in>set (players db'). 0 \<le> p_score p" by simp
    from Cons.IH[OF ok, of hs'] ok c step show ?case by simp
  qed
  show "\<forall>playerId amount hs0 db0 player.
            find (\<lambda>p. p_id p = playerId) (hs_players hs0) = Some player \<longrightarrow>
            (\<forall>p\<in>set (players (snd (updatePlayerScore playerId amount hs0 db0))).
               p_id p = playerId \<longrightarrow> p_score p = max 0 (p_score player + amount) \<and> 0 \<le> p_score p)"
  proof (intro allI impI ballI)
    fix playerId amount hs0 db0 player p
    assume f: "find (\<lambda>p. p_id p = playerId) (hs_players hs0) = Some player"
      and p: "p \<in> set (players (snd (updatePlayerScore playerId amount hs0 db0)))"
      and i: "p_id p = playerId"
    from updatePlayerScore_writes_clamped[OF f p i]
    show "p_score p = max 0 (p_score player + amount) \<and> 0 \<le> p_score p" by simp
  qed
qed

theorem updatePlayerScore_never_negative_witness:
  "list_all (\<lambda>p. 0 \<le> p_score p) (players demo_db) \<and>
   map (\<lambda>db'. map p_score (players db'))
     (updatePlayerScore_run [(''p1'', - 5), (''p1'', 3), (''p2'', 1), (''p1'', - 7)] demo_host demo_db)
     = [ [0, 0, 1], [3, 0, 1], [3, 1, 1], [0, 1, 1]] \<and>
   list_all (\<lambda>db'. list_all (\<lambda>p. 0 \<le> p_score p) (players db'))
     (updatePlayerScore_run [(''p1'', - 5), (''p1'', 3), (''p2'', 1), (''p1'', - 7)] demo_host demo_db)"
proof -
  have h: "\<forall>p\<in>set (players demo_db). 0 \<le> p_score p" by (simp add: demo_db_def)
  have e: "map (\<lambda>db'. map p_score (players db'))
     (updatePlayerScore_run [(''p1'', - 5), (''p1'', 3), (''p2'', 1), (''p1'', - 7)] demo_host demo_db)
     = [ [0, 0, 1], [3, 0, 1], [3, 1, 1], [0, 1, 1]]"
    by (simp add: demo_host_def demo_db_def fresh_host_def loadRoomData_def rooms_select_policy_def
          loadAnswersForQuestion_def updatePlayerScore_def players_set_score_def Let_def)
  from h e updatePlayerScore_never_negative[OF h] show ?thesis
    unfolding list_all_iff by blast
qed

section \<open>Sending a question\<close>

lemma filter_deactivate_same:
  "filter (\<lambda>q. q_room_id q = r \<and> q_is_active q)
     (map (\<lambda>q. if q_room_id q = r \<and> q_is_active q then q\<lparr>q_is_active := False\<rparr> else q) qs) = []"
  by (induction qs) simp_all

lemma filter_deactivate_other:
  "r' \<noteq> r \<Longrightarrow>
   filter (\<lambda>q. q_room_id q = r' \<and> q_is_active q)
     (map (\<lambda>q. if q_room_id q = r \<and> q_is_active q then q\<lparr>q_is_active := False\<rparr> else q) qs)
   = filter (\<lambda>q. q_room_id q = r' \<and> q_is_active q) qs"
  by (induction qs) simp_all

lemma active_deactivate_same: "active_questions r (questions_deactivate r db) = []"
  by (simp add: active_questions_def questions_deactivate_def filter_deactivate_same)

lemma active_deactivate_other:
  "r' \<noteq> r \<Longrightarrow> active_questions r' (questions_deactivate r db) = active_questions r' db"
  by (simp add: active_questions_def questions_deactivate_def filter_deactivate_other)

lemma questions_insert_Inr:
  "questions_insert row db = Inr db' \<Longrightarrow> db' = db\<lparr>questions := questions db @ [row]\<rparr>"
  by (simp add: questions_insert_def split: if_splits)

lemma question_row_fields:
  "q_id (question_row r d i t) = i"
  "q_room_id (question_row r d i t) = r"
  "q_text (question_row r d i t) = trim (d_text d)"
  "q_correct_answer (question_row r d i t) = Some (trim (d_answer d))"
  "q_is_active (question_row r d i t) = True"
  "q_created_at (question_row r d i t) = t"
  by (simp_all add: question_row_def)

lemma sendQuestion_none:
  "questionToSend qd hs = None \<Longrightarrow> sendQuestion r qd hs db i t = (InvalidArgument, hs, db)"
  by (simp add: sendQuestion_def)

lemma sendQuestion_blank:
  "questionToSend qd hs = Some d \<Longrightarrow> trim (d_text d) = [] \<or> trim (d_answer d) = [] \<Longrightarrow>
   sendQuestion r qd hs db i t = (InvalidArgument, hs, db)"
  by (simp add: sendQuestion_def)

lemma sendQuestion_valid:
  "questionToSend qd hs = Some d \<Longrightarrow> trim (d_text d) \<noteq> [] \<Longrightarrow> trim (d_answer d) \<noteq> [] \<Longrightarrow>
   sendQuestion r qd hs db i t =
     (case questions_insert (question_row r d i t) (questions_deactivate r db) of
        Inl e \<Rightarrow> (SendFailed e, hs, questions_deactivate r db)
      | Inr db2 \<Rightarrow>
          (Sent (question_row r d i t),
           hs\<lparr>hs_answers := [],
              hs_currentQuestion := Some \<lparr>d_text = trim (d_text d), d_answer = trim (d_answer d)\<rparr>\<rparr>,
           answers_delete_room r db2))"
  by (simp add: sendQuestion_def question_row_def Let_def split: sum.splits)

text \<open>The database after a call, by outcome.\<close>

lemma sendQuestion_result:
  assumes "sendQuestion r qd hs db i t = (out, hs', db')"
  shows "(out = InvalidArgument \<and> hs' = hs \<and> db' = db) \<or>
         (\<exists>e. out = SendFailed e \<and> hs' = hs \<and> db' = questions_deactivate r db) \<or>
         (\<exists>d. questionToSend qd hs = Some d \<and> trim (d_text d) \<noteq> [] \<and> trim (d_answer d) \<noteq> [] \<and>
            out = Sent (question_row r d i t) \<and>
            db' = answers_delete_room r
                    ((questions_deactivate r db)
                       \<lparr>questions := questions (questions_deactivate r db) @ [question_row r d i t]\<rparr>))"
proof (cases "questionToSend qd hs")
  case None
  with assms show ?thesis by (simp add: sendQuestion_none)
next
  case (Some d)
  show ?thesis
  proof (cases "trim (d_text d) = [] \<or> trim (d_answer d) = []")
    case True
    with Some assms show ?thesis by (simp add: sendQuestion_blank)
  next
    case False
    then have v: "trim (d_text d) \<noteq> []" "trim (d_answer d) \<noteq> []" by simp_all
    show ?thesis
    proof (cases "questions_insert (question_row r d i t) (questions_deactivate r db)")
      case (Inl e)
      with assms Some v have "out = SendFailed e \<and> hs' = hs \<and> db' = questions_deactivate r db"
        by (simp add: sendQuestion_valid)
      then show ?thesis by blast
    next
      case (Inr db2)
      from questions_insert_Inr[OF Inr] Inr assms Some v show ?thesis
        by (simp add: sendQuestion_valid)
    qed
  qed
qed

lemma sendQuestion_Sent:
  assumes "sendQuestion r qd hs db i t = (Sent q, hs', db')"
  shows "\<exists>d. questionToSend qd hs = Some d \<and> trim (d_text d) \<noteq> [] \<and> trim (d_answer d) \<noteq> [] \<and>
            q = question_row r d i t \<and>
            db' = answers_delete_room r
                    ((questions_deactivate r db)
                       \<lparr>questions := questions (questions_deactivate r db) @ [question_row r d i t]\<rparr>)"
  using sendQuestion_result[OF assms] by simp

lemma active_after_insert:
  "active_questions r' (answers_delete_room r (D\<lparr>questions := questions D @ [row]\<rparr>)) =
     active_questions r' D @ (if q_room_id row = r' \<and> q_is_active row then [row] else [])"
  by (simp add: active_questions_def answers_delete_room_def delete_policy_def)

lemma sendQuestion_sole_active:
  assumes "sendQuestion r qd hs db i t = (Sent q, hs', db')"
  shows "active_questions r db' = [q]"
proof -
  from sendQuestion_Sent[OF assms] obtain d where
    q: "q = question_row r d i t" and
    db': "db' = answers_delete_room r
                    ((questions_deactivate r db)
                       \<lparr>questions := questions (questions_deactivate r db) @ [question_row r d i t]\<rparr>)"
    by blast
  show ?thesis
    unfolding db' q active_after_insert
    by (simp add: active_deactivate_same question_row_fields)
qed

lemma sendQuestion_other_rooms_active:
  assumes "sendQuestion r qd hs db i t = (out, hs', db')" and "r' \<noteq> r"
  shows "active_questions r' db' = active_questions r' db"
proof -
  from sendQuestion_result[OF assms(1)]
  consider "db' = db" | "db' = questions_deactivate r db"
    | d where "db' = answers_delete_room r
                    ((questions_deactivate r db)
                       \<lparr>questions := questions (questions_deactivate r db) @ [question_row r d i t]\<rparr>)"
    by blast
  then show ?thesis
  proof cases
    case 1 then show ?thesis by simp
  next
    case 2 with assms(2) show ?thesis by (simp add: active_deactivate_other)
  next
    case 3
    show ?thesis unfolding 3 active_after_insert using assms(2)
      by (simp add: active_deactivate_other question_row_fields)
  qed
qed

lemma sendQuestion_same_room_active:
  assumes "sendQuestion r qd hs db i t = (out, hs', db')"
  shows "active_questions r db' = active_questions r db \<or> length (active_questions r db') \<le> 1"
proof -
  from sendQuestion_result[OF assms(1)]
  consider "db' = db" | "db' = questions_deactivate r db"
    | d where "db' = answers_delete_room r
                    ((questions_deactivate r db)
                       \<lparr>questions := questions (questions_deactivate r db) @ [question_row r d i t]\<rparr>)"
    by blast
  then show ?thesis
  proof cases
    case 1 then show ?thesis by simp
  next
    case 2 then show ?thesis by (simp add: active_deactivate_same)
  next
    case 3
    show ?thesis unfolding 3 active_after_insert
      by (simp add: active_deactivate_same question_row_fields)
  qed
qed

lemma sendQuestion_keeps_at_most_one:
  assumes "sendQuestion r qd hs db i t = (out, hs', db')"
    and "length (active_questions r' db) \<le> 1"
  shows "length (active_questions r' db') \<le> 1"
proof (cases "r' = r")
  case True
  with sendQuestion_same_room_active[OF assms(1)] assms(2) show ?thesis by auto
next
  case False
  with sendQuestion_other_rooms_active[OF assms(1)] assms(2) show ?thesis by simp
qed

lemma sendQuestion_accepted_at_most_one:
  assumes "fst (sendQuestion r qd hs db i t) \<noteq> InvalidArgument"
  shows "length (active_questions r (snd (snd (sendQuestion r qd hs db i t)))) \<le> 1"
proof -
  obtain out hs' db' where s: "sendQuestion r qd hs db i t = (out, hs', db')"
    by (cases "sendQuestion r qd hs db i t")
  with assms have "out \<noteq> InvalidArgument" by simp
  with sendQuestion_result[OF s]
  consider "db' = questions_deactivate r db"
    | d where "db' = answers_delete_room r
                    ((questions_deactivate r db)
                       \<lparr>questions := questions (questions_deactivate r db) @ [question_row r d i t]\<rparr>)"
    by blast
  then have "length (active_questions r db') \<le> 1"
  proof cases
    case 1 then show ?thesis by (simp add: active_deactivate_same)
  next
    case 2
    show ?thesis unfolding 2 active_after_insert
      by (simp add: active_deactivate_same question_row_fields)
  qed
  with s show ?thesis by simp
qed

lemma demo_host_eval:
  "demo_host =
     \<lparr>hs_room = Some \<lparr>r_id = ''r1'', r_code = ''AB12CD'', r_name = ''Nouvelle partie'',
                       r_host_id = Some ''h1'', r_is_active = True, r_created_at = 1\<rparr>,
      hs_players =
        [\<lparr>p_id = ''p1'', p_pseudo = ''Alice'', p_room_id = ''r1'', p_score = 0,
          p_is_connected = True, p_joined_at = 3\<rparr>,
         \<lparr>p_id = ''p2'', p_pseudo = ''Bob'', p_room_id = ''r1'', p_score = 0,
          p_is_connected = True, p_joined_at = 4\<rparr>],
      hs_currentQuestion = None,
      hs_answers =
        [\<lparr>ha_row = \<lparr>a_id = ''a1'', a_player_id = ''p1'', a_question_id = ''q1'',
                     a_room_id = Some ''r1'', a_text = ''4'', a_response_time = 1200,
                     a_is_correct = False, a_submitted_at = 8\<rparr>,
          ha_player = Some \<lparr>p_id = ''p1'', p_pseudo = ''Alice'', p_room_id = ''r1'', p_score = 0,
                            p_is_connected = True, p_joined_at = 3\<rparr>\<rparr>,
         \<lparr>ha_row = \<lparr>a_id = ''a2'', a_player_id = ''p2'', a_question_id = ''q1'',
                     a_room_id = Some ''r1'', a_text = ''5'', a_response_time = 1500,
                     a_is_correct = False, a_submitted_at = 9\<rparr>,
          ha_player = Some \<lparr>p_id = ''p2'', p_pseudo = ''Bob'', p_room_id = ''r1'', p_score = 0,
                            p_is_connected = True, p_joined_at = 4\<rparr>\<rparr>],
      hs_isGameEnded = False\<rparr>"
  by (simp add: demo_host_def demo_db_def fresh_host_def loadRoomData_def rooms_select_policy_def loadAnswersForQuestion_def)

lemma demo_send_run:
  "map (\<lambda>db'. map q_id (active_questions ''r1'' db'))
     (sendQuestion_run ''r1''
        [(Some \<lparr>d_text = '' 5+5? '', d_answer = ''10 ''\<rparr>, ''q3'', 20),
         (None, ''q4'', 21),
         (Some \<lparr>d_text = ''   '', d_answer = ''1''\<rparr>, ''q5'', 22)] demo_host demo_db)
   = [ [''q3''], [''q4''], [''q4'']]"
  by (simp add: demo_host_eval demo_db_def sendQuestion_def questionToSend_def question_row_def
        questions_deactivate_def questions_insert_def answers_delete_room_def delete_policy_def active_questions_def
        trim_def is_space_def Let_def)


lemma demo_send:
  "sendQuestion ''r1'' (Some \<lparr>d_text = '' 5+5? '', d_answer = ''10 ''\<rparr>) demo_host demo_db ''q3'' 20 =
     (Sent \<lparr>q_id = ''q3'', q_room_id = ''r1'', q_text = ''5+5?'', q_correct_answer = Some ''10'',
            q_is_active = True, q_created_at = 20\<rparr>,
      demo_host\<lparr>hs_answers := [],
                hs_currentQuestion := Some \<lparr>d_text = ''5+5?'', d_answer = ''10''\<rparr>\<rparr>,
      demo_db\<lparr>questions :=
                 [\<lparr>q_id = ''q1'', q_room_id = ''r1'', q_text = ''2+2?'', q_correct_answer = Some ''4'',
                   q_is_active = False, q_created_at = 6\<rparr>,
                  \<lparr>q_id = ''q2'', q_room_id = ''r2'', q_text = ''3+3?'', q_correct_answer = Some ''6'',
                   q_is_active = True, q_created_at = 7\<rparr>,
                  \<lparr>q_id = ''q3'', q_room_id = ''r1'', q_text = ''5+5?'', q_correct_answer = Some ''10'',
                   q_is_active = True, q_created_at = 20\<rparr>]\<rparr>)"
  by (simp add: demo_db_def sendQuestion_def questionToSend_def question_row_def
        questions_deactivate_def questions_insert_def answers_delete_room_def delete_policy_def
        trim_def is_space_def Let_def)

lemma demo_two_active:
  "map q_id (active_questions ''r1'' demo_db_two_active) = [''q1'', ''q0'']"
  "fst (sendQuestion ''r1'' (Some \<lparr>d_text = '' 5+5? '', d_answer = ''10 ''\<rparr>) demo_host
         demo_db_two_active ''q3'' 20)
     = Sent \<lparr>q_id = ''q3'', q_room_id = ''r1'', q_text = ''5+5?'', q_correct_answer = Some ''10'',
             q_is_active = True, q_created_at = 20\<rparr>"
  "map q_id (active_questions ''r1''
     (snd (snd (sendQuestion ''r1'' (Some \<lparr>d_text = '' 5+5? '', d_answer = ''10 ''\<rparr>) demo_host
                  demo_db_two_active ''q3'' 20)))) = [''q3'']"
  by (simp_all add: demo_db_two_active_def demo_db_def sendQuestion_def questionToSend_def
        question_row_def questions_deactivate_def questions_insert_def answers_delete_room_def delete_policy_def
        active_questions_def trim_def is_space_def Let_def)

text \<open>
  C1. A room is created without questions. From a database in which a room has at most one
  active question, after each call of any sequence of \<open>sendQuestion\<close> calls (on that room or
  on any other room) the room has at most one active question. Moreover, whatever the
  database holds, after a call that is not rejected as invalid the room it was sent to has at
  most one active question: the room's active questions are deactivated before the new one
  is stored, which then is the only active one (\<open>sendQuestion_sole_active\<close>).
\<close>

theorem sendQuestion_at_most_one_active:
  assumes "length (active_questions r' db) \<le> 1"
  shows "(\<forall>db'\<in>set (sendQuestion_run r calls hs db). length (active_questions r' db') \<le> 1) \<and>
         (\<forall>qd hs0 db0 i t. fst (sendQuestion r qd hs0 db0 i t) \<noteq> InvalidArgument \<longrightarrow>
            length (active_questions r (snd (snd (sendQuestion r qd hs0 db0 i t)))) \<le> 1)"
proof
  show "\<forall>db'\<in>set (sendQuestion_run r calls hs db). length (active_questions r' db') \<le> 1"
    using assms
  proof (induction calls arbitrary: hs db)
    case Nil
    show ?case by simp
  next
    case (Cons c calls)
    obtain qd i t where c: "c = (qd, i, t)" by (cases c)
    obtain out hs' db' where step: "sendQuestion r qd hs db i t = (out, hs', db')"
      by (cases "sendQuestion r qd hs db i t")
    from sendQuestion_keeps_at_most_one[OF step Cons.prems]
    have ok: "length (active_questions r' db') \<le> 1" .
    from Cons.IH[OF ok, of hs'] ok c step show ?case by simp
  qed
  show "\<forall>qd hs0 db0 i t. fst (sendQuestion r qd hs0 db0 i t) \<noteq> InvalidArgument \<longrightarrow>
            length (active_questions r (snd (snd (sendQuestion r qd hs0 db0 i t)))) \<le> 1"
    using sendQuestion_accepted_at_most_one by blast
qed

theorem sendQuestion_at_most_one_active_witness:
  "length (active_questions ''r1'' demo_db) \<le> 1 \<and>
   map (\<lambda>db'. map q_id (active_questions ''r1'' db'))
     (sendQuestion_run ''r1''
        [(Some \<lparr>d_text = '' 5+5? '', d_answer = ''10 ''\<rparr>, ''q3'', 20),
         (None, ''q4'', 21),
         (Some \<lparr>d_text = ''   '', d_answer = ''1''\<rparr>, ''q5'', 22)] demo_host demo_db)
   = [ [''q3''], [''q4''], [''q4'']] \<and>
   list_all (\<lambda>db'. length (active_questions ''r1'' db') \<le> 1)
     (sendQuestion_run ''r1''
        [(Some \<lparr>d_text = '' 5+5? '', d_answer = ''10 ''\<rparr>, ''q3'', 20),
         (None, ''q4'', 21),
         (Some \<lparr>d_text = ''   '', d_answer = ''1''\<rparr>, ''q5'', 22)] demo_host demo_db) \<and>
   map q_id (active_questions ''r1'' demo_db_two_active) = [''q1'', ''q0''] \<and>
   length (active_questions ''r1''
     (snd (snd (sendQuestion ''r1'' (Some \<lparr>d_text = '' 5+5? '', d_answer = ''10 ''\<rparr>) demo_host
                  demo_db_two_active ''q3'' 20)))) \<le> 1"
proof -
  have h: "length (active_questions ''r1'' demo_db) \<le> 1"
    by (simp add: active_questions_def demo_db_def)
  note t = sendQuestion_at_most_one_active[OF h, of "''r1''"]
  from t have a: "list_all (\<lambda>db'. length (active_questions ''r1'' db') \<le> 1)
     (sendQuestion_run ''r1''
        [(Some \<lparr>d_text = '' 5+5? '', d_answer = ''10 ''\<rparr>, ''q3'', 20),
         (None, ''q4'', 21),
         (Some \<lparr>d_text = ''   '', d_answer = ''1''\<rparr>, ''q5'', 22)] demo_host demo_db)"
    unfolding list_all_iff by blast
  from t demo_two_active(2)
  have b: "length (active_questions ''r1''
     (snd (snd (sendQuestion ''r1'' (Some \<lparr>d_text = '' 5+5? '', d_answer = ''10 ''\<rparr>) demo_host
                  demo_db_two_active ''q3'' 20)))) \<le> 1"
    by (simp add: demo_two_active(3))
  from h demo_send_run a demo_two_active(1) b show ?thesis by simp
qed

text \<open>
  C7. When the text or the answer of the question to send is empty after trimming,
  \<open>sendQuestion\<close> ends with \<open>InvalidArgument\<close> and leaves page and database as they were.
  When both are non-empty the call is not rejected as invalid, and a question it stores holds
  the trimmed text and the trimmed answer.
\<close>

theorem sendQuestion_validation:
  assumes "questionToSend qd hs = Some d"
  shows "(trim (d_text d) = [] \<or> trim (d_answer d) = [] \<longrightarrow>
           sendQuestion r qd hs db i t = (InvalidArgument, hs, db)) \<and>
         (trim (d_text d) \<noteq> [] \<and> trim (d_answer d) \<noteq> [] \<longrightarrow>
           fst (sendQuestion r qd hs db i t) \<noteq> InvalidArgument \<and>
           (\<forall>q hs' db'. sendQuestion r qd hs db i t = (Sent q, hs', db') \<longrightarrow>
              q_text q = trim (d_text d) \<and> q_correct_answer q = Some (trim (d_answer d)) \<and>
              questions db' = questions (questions_deactivate r db) @ [q]))"
proof (intro conjI impI allI)
  assume "trim (d_text d) = [] \<or> trim (d_answer d) = []"
  with assms show "sendQuestion r qd hs db i t = (InvalidArgument, hs, db)"
    by (rule sendQuestion_blank)
next
  assume v: "trim (d_text d) \<noteq> [] \<and> trim (d_answer d) \<noteq> []"
  with assms show "fst (sendQuestion r qd hs db i t) \<noteq> InvalidArgument"
    by (simp add: sendQuestion_valid split: sum.splits)
next
  fix q hs' db'
  assume v: "trim (d_text d) \<noteq> [] \<and> trim (d_answer d) \<noteq> []"
    and s: "sendQuestion r qd hs db i t = (Sent q, hs', db')"
  from sendQuestion_Sent[OF s] assms
  have q: "q = question_row r d i t"
    and db': "db' = answers_delete_room r
                    ((questions_deactivate r db)
                       \<lparr>questions := questions (questions_deactivate r db) @ [question_row r d i t]\<rparr>)"
    by auto
  show "q_text q = trim (d_text d)" by (simp add: q question_row_fields)
  show "q_correct_answer q = Some (trim (d_answer d))" by (simp add: q question_row_fields)
  show "questions db' = questions (questions_deactivate r db) @ [q]"
    by (simp add: db' q answers_delete_room_def delete_policy_def)
qed

lemma demo_blank:
  "questionToSend (Some \<lparr>d_text = ''   '', d_answer = ''1''\<rparr>) demo_host
     = Some \<lparr>d_text = ''   '', d_answer = ''1''\<rparr>"
  "trim ''   '' = []"
  "questionToSend (Some \<lparr>d_text = '' 5+5? '', d_answer = ''10 ''\<rparr>) demo_host
     = Some \<lparr>d_text = '' 5+5? '', d_answer = ''10 ''\<rparr>"
  "trim '' 5+5? '' = ''5+5?''" "trim ''10 '' = ''10''"
  by (simp_all add: questionToSend_def trim_def is_space_def)

theorem sendQuestion_validation_witness:
  "sendQuestion ''r1'' (Some \<lparr>d_text = ''   '', d_answer = ''1''\<rparr>) demo_host demo_db ''q5'' 22
     = (InvalidArgument, demo_host, demo_db) \<and>
   questions (snd (snd (sendQuestion ''r1'' (Some \<lparr>d_text = ''   '', d_answer = ''1''\<rparr>)
                          demo_host demo_db ''q5'' 22))) = questions demo_db \<and>
   fst (sendQuestion ''r1'' (Some \<lparr>d_text = '' 5+5? '', d_answer = ''10 ''\<rparr>) demo_host demo_db ''q3'' 20)
     = Sent \<lparr>q_id = ''q3'', q_room_id = ''r1'', q_text = ''5+5?'', q_correct_answer = Some ''10'',
             q_is_active = True, q_created_at = 20\<rparr> \<and>
   q_text (last (questions (snd (snd
     (sendQuestion ''r1'' (Some \<lparr>d_text = '' 5+5? '', d_answer = ''10 ''\<rparr>) demo_host demo_db ''q3'' 20)))))
     = ''5+5?''"
proof -
  from sendQuestion_validation[OF demo_blank(1), of "''r1''" demo_db "''q5''" 22]
  have a: "sendQuestion ''r1'' (Some \<lparr>d_text = ''   '', d_answer = ''1''\<rparr>) demo_host demo_db ''q5'' 22
     = (InvalidArgument, demo_host, demo_db)"
    by (simp add: demo_blank)
  from sendQuestion_validation[OF demo_blank(3), of "''r1''" demo_db "''q3''" 20] demo_send
  have b: "q_text (last (questions (snd (snd
     (sendQuestion ''r1'' (Some \<lparr>d_text = '' 5+5? '', d_answer = ''10 ''\<rparr>) demo_host demo_db ''q3'' 20)))))
     = ''5+5?''"
    by (simp add: demo_blank)
  from a b demo_send show ?thesis by simp
qed


text \<open>No policy lets a client delete: each of the four deletes leaves the database as it is.\<close>

lemma answers_delete_room_none: "answers_delete_room r db = db"
  by (simp add: answers_delete_room_def delete_policy_def)




lemma sendQuestion_answers_kept:
  "answers (snd (snd (sendQuestion r qd hs db i t))) = answers db"
proof -
  obtain out hs' db' where s: "sendQuestion r qd hs db i t = (out, hs', db')"
    by (cases "sendQuestion r qd hs db i t")
  from sendQuestion_result[OF s]
  consider "db' = db" | "db' = questions_deactivate r db"
    | d where "db' = answers_delete_room r
                    ((questions_deactivate r db)
                       \<lparr>questions := questions (questions_deactivate r db) @ [question_row r d i t]\<rparr>)"
    by blast
  then have "answers db' = answers db"
  proof cases
    case 1 then show ?thesis by simp
  next
    case 2 then show ?thesis by (simp add: questions_deactivate_def)
  next
    case 3 then show ?thesis by (simp add: answers_delete_room_none questions_deactivate_def)
  qed
  with s show ?thesis by simp
qed

text \<open>What a successful call does to the tables.\<close>

lemma sendQuestion_Sent_tables:
  assumes "sendQuestion r qd hs db i t = (Sent q, hs', db')"
  shows "questions db' =
           map (\<lambda>x. if q_room_id x = r \<and> q_is_active x then x\<lparr>q_is_active := False\<rparr> else x)
             (questions db) @ [q] \<and>
         active_questions r db' = [q] \<and>
         q_id q = i \<and> q_room_id q = r \<and> q_is_active q \<and>
         answers db' = answers db \<and> rooms db' = rooms db \<and> players db' = players db \<and>
         hs_answers hs' = []"
proof -
  from sendQuestion_Sent[OF assms] obtain d where
    v: "questionToSend qd hs = Some d" "trim (d_text d) \<noteq> []" "trim (d_answer d) \<noteq> []" and
    q: "q = question_row r d i t" and
    db': "db' = answers_delete_room r
                    ((questions_deactivate r db)
                       \<lparr>questions := questions (questions_deactivate r db) @ [question_row r d i t]\<rparr>)"
    by blast
  have 1: "questions db' =
           map (\<lambda>x. if q_room_id x = r \<and> q_is_active x then x\<lparr>q_is_active := False\<rparr> else x)
             (questions db) @ [q]"
    by (simp add: db' q answers_delete_room_none questions_deactivate_def)
  have 2: "answers db' = answers db"
    using sendQuestion_answers_kept[of r qd hs db i t] assms by simp
  have 4: "rooms db' = rooms db \<and> players db' = players db"
    by (simp add: db' answers_delete_room_none questions_deactivate_def)
  have "questions_insert (question_row r d i t) (questions_deactivate r db) = Inr
          ((questions_deactivate r db)
             \<lparr>questions := questions (questions_deactivate r db) @ [question_row r d i t]\<rparr>)
        \<or> (\<exists>e. questions_insert (question_row r d i t) (questions_deactivate r db) = Inl e)"
    by (simp add: questions_insert_def)
  with assms sendQuestion_valid[OF v, of r db i t] have 5: "hs_answers hs' = []"
    by auto
  from 1 2 4 5 sendQuestion_sole_active[OF assms] show ?thesis
    by (simp add: q question_row_fields)
qed

text \<open>
  C5. On the sample the host of room \<open>r1\<close> sends a new question. The call succeeds: the
  active question \<open>q1\<close> is stored inactive, the new question \<open>q3\<close> is stored active, and the
  page's list of answers is emptied. The two answers of room \<open>r1\<close> are still stored: the
  \<open>DELETE\<close> under the comment "Clear existing answers" removes no row, and its result is
  not inspected.
\<close>

theorem sendQuestion_answers_remain:
  "fst (sendQuestion ''r1'' (Some \<lparr>d_text = '' 5+5? '', d_answer = ''10 ''\<rparr>) demo_host demo_db ''q3'' 20)
     = Sent \<lparr>q_id = ''q3'', q_room_id = ''r1'', q_text = ''5+5?'', q_correct_answer = Some ''10'',
             q_is_active = True, q_created_at = 20\<rparr> \<and>
   map (\<lambda>q. (q_id q, q_is_active q))
     (questions (snd (snd (sendQuestion ''r1'' (Some \<lparr>d_text = '' 5+5? '', d_answer = ''10 ''\<rparr>)
                            demo_host demo_db ''q3'' 20))))
     = [(''q1'', False), (''q2'', True), (''q3'', True)] \<and>
   hs_answers (fst (snd (sendQuestion ''r1'' (Some \<lparr>d_text = '' 5+5? '', d_answer = ''10 ''\<rparr>)
                           demo_host demo_db ''q3'' 20))) = [] \<and>
   map a_id (filter (\<lambda>a. a_room_id a = Some ''r1'') (answers demo_db)) = [''a1'', ''a2''] \<and>
   map a_id (filter (\<lambda>a. a_room_id a = Some ''r1'')
     (answers (snd (snd (sendQuestion ''r1'' (Some \<lparr>d_text = '' 5+5? '', d_answer = ''10 ''\<rparr>)
                          demo_host demo_db ''q3'' 20)))))
     = [''a1'', ''a2'']"
  unfolding demo_send by (simp add: demo_db_def)


text \<open>
  C9. \<open>sendQuestion\<close> leaves the answers table as it is, whatever the outcome: every stored
  answer is still stored after the call, with the \<open>is_correct\<close> flag it had. In particular the
  answers that two players gave to the question the call deactivates keep their flags.
\<close>

theorem sendQuestion_keeps_answer_flags:
  "answers (snd (snd (sendQuestion r qd hs db i t))) = answers db \<and>
   map (\<lambda>a. (a_id a, a_is_correct a)) (answers (snd (snd (sendQuestion r qd hs db i t))))
     = map (\<lambda>a. (a_id a, a_is_correct a)) (answers db)"
  by (simp add: sendQuestion_answers_kept)

lemma demo_graded_eval:
  "demo_db_graded =
     demo_db\<lparr>players :=
        [\<lparr>p_id = ''p1'', p_pseudo = ''Alice'', p_room_id = ''r1'', p_score = 1,
          p_is_connected = True, p_joined_at = 3\<rparr>,
         \<lparr>p_id = ''p2'', p_pseudo = ''Bob'', p_room_id = ''r1'', p_score = 0,
          p_is_connected = True, p_joined_at = 4\<rparr>,
         \<lparr>p_id = ''p3'', p_pseudo = ''Carol'', p_room_id = ''r2'', p_score = 1,
          p_is_connected = True, p_joined_at = 5\<rparr>],
      answers :=
        [\<lparr>a_id = ''a1'', a_player_id = ''p1'', a_question_id = ''q1'', a_room_id = Some ''r1'',
          a_text = ''4'', a_response_time = 1200, a_is_correct = True, a_submitted_at = 8\<rparr>,
         \<lparr>a_id = ''a2'', a_player_id = ''p2'', a_question_id = ''q1'', a_room_id = Some ''r1'',
          a_text = ''5'', a_response_time = 1500, a_is_correct = False, a_submitted_at = 9\<rparr>,
         \<lparr>a_id = ''a3'', a_player_id = ''p3'', a_question_id = ''q2'', a_room_id = Some ''r2'',
          a_text = ''6'', a_response_time = 900, a_is_correct = True, a_submitted_at = 10\<rparr>]\<rparr>"
  by (simp add: demo_db_graded_def demo_host_eval markAnswerCorrect_def players_set_score_def
        answers_set_correct_def demo_db_def Let_def)

lemma demo_send_graded:
  "fst (sendQuestion ''r1'' (Some \<lparr>d_text = '' 5+5? '', d_answer = ''10 ''\<rparr>) demo_host
          demo_db_graded ''q3'' 20)
     = Sent \<lparr>q_id = ''q3'', q_room_id = ''r1'', q_text = ''5+5?'', q_correct_answer = Some ''10'',
             q_is_active = True, q_created_at = 20\<rparr>"
  "map (\<lambda>q. (q_id q, q_is_active q))
     (questions (snd (snd (sendQuestion ''r1'' (Some \<lparr>d_text = '' 5+5? '', d_answer = ''10 ''\<rparr>)
                            demo_host demo_db_graded ''q3'' 20))))
     = [(''q1'', False), (''q2'', True), (''q3'', True)]"
  by (simp_all add: demo_graded_eval demo_db_def sendQuestion_def questionToSend_def question_row_def
        questions_deactivate_def questions_insert_def answers_delete_room_def delete_policy_def
        trim_def is_space_def Let_def)

theorem sendQuestion_keeps_answer_flags_witness:
  "map (\<lambda>a. (a_id a, a_player_id a, a_question_id a, a_is_correct a)) (answers demo_db_graded)
     = [(''a1'', ''p1'', ''q1'', True), (''a2'', ''p2'', ''q1'', False), (''a3'', ''p3'', ''q2'', True)] \<and>
   map q_id (active_questions ''r1'' demo_db_graded) = [''q1''] \<and>
   fst (sendQuestion ''r1'' (Some \<lparr>d_text = '' 5+5? '', d_answer = ''10 ''\<rparr>) demo_host
          demo_db_graded ''q3'' 20)
     = Sent \<lparr>q_id = ''q3'', q_room_id = ''r1'', q_text = ''5+5?'', q_correct_answer = Some ''10'',
             q_is_active = True, q_created_at = 20\<rparr> \<and>
   map (\<lambda>q. (q_id q, q_is_active q))
     (questions (snd (snd (sendQuestion ''r1'' (Some \<lparr>d_text = '' 5+5? '', d_answer = ''10 ''\<rparr>)
                            demo_host demo_db_graded ''q3'' 20))))
     = [(''q1'', False), (''q2'', True), (''q3'', True)] \<and>
   map (\<lambda>a. (a_id a, a_player_id a, a_question_id a, a_is_correct a))
     (answers (snd (snd (sendQuestion ''r1'' (Some \<lparr>d_text = '' 5+5? '', d_answer = ''10 ''\<rparr>)
                          demo_host demo_db_graded ''q3'' 20))))
     = [(''a1'', ''p1'', ''q1'', True), (''a2'', ''p2'', ''q1'', False), (''a3'', ''p3'', ''q2'', True)]"
proof -
  have a: "map (\<lambda>a. (a_id a, a_player_id a, a_question_id a, a_is_correct a)) (answers demo_db_graded)
     = [(''a1'', ''p1'', ''q1'', True), (''a2'', ''p2'', ''q1'', False), (''a3'', ''p3'', ''q2'', True)]"
    by (simp add: demo_graded_eval demo_db_def)
  have q: "map q_id (active_questions ''r1'' demo_db_graded) = [''q1'']"
    by (simp add: demo_graded_eval demo_db_def active_questions_def)
  from sendQuestion_keeps_answer_flags[of "''r1''" "Some \<lparr>d_text = '' 5+5? '', d_answer = ''10 ''\<rparr>"
         demo_host demo_db_graded "''q3''" 20]
  have "answers (snd (snd (sendQuestion ''r1'' (Some \<lparr>d_text = '' 5+5? '', d_answer = ''10 ''\<rparr>)
                          demo_host demo_db_graded ''q3'' 20))) = answers demo_db_graded"
    by blast
  with a q demo_send_graded show ?thesis by simp
qed

section \<open>Submitting an answer\<close>

lemma trim_decomp:
  "\<exists>l r. s = l @ trim s @ r \<and> list_all is_space l \<and> list_all is_space r"
proof -
  define m where "m = dropWhile is_space s"
  have 1: "s = takeWhile is_space s @ m" by (simp add: m_def)
  have "m = rev (dropWhile is_space (rev m)) @ rev (takeWhile is_space (rev m))"
    by (metis rev_append rev_rev_ident takeWhile_dropWhile_id)
  then have 2: "m = trim s @ rev (takeWhile is_space (rev m))"
    by (simp only: trim_def m_def)
  have 3: "list_all is_space (takeWhile is_space s)"
    unfolding list_all_iff by (auto dest: set_takeWhileD)
  have 4: "list_all is_space (rev (takeWhile is_space (rev m)))"
    unfolding list_all_iff by (auto dest: set_takeWhileD)
  from 1 2 have "s = takeWhile is_space s @ trim s @ rev (takeWhile is_space (rev m))" by simp
  with 3 4 show ?thesis by blast
qed

lemma trim_no_outer_space:
  assumes "trim s \<noteq> []"
  shows "\<not> is_space (hd (trim s)) \<and> \<not> is_space (last (trim s))"
proof -
  define m where "m = dropWhile is_space s"
  define k where "k = dropWhile is_space (rev m)"
  have t: "trim s = rev k" by (simp add: trim_def m_def k_def)
  with assms have k: "k \<noteq> []" by simp
  then have m: "m \<noteq> []" by (auto simp: k_def)
  have "last (trim s) = hd k" using k by (simp add: t last_rev)
  moreover have "\<not> is_space (hd k)" using k unfolding k_def by (rule hd_dropWhile)
  moreover have "hd (trim s) = last k" using k by (simp add: t hd_rev)
  moreover have "rev m = takeWhile is_space (rev m) @ k" by (simp add: k_def)
  then have "last (rev m) = last k" using k by (metis last_appendR)
  then have "last k = hd m" using m by (simp add: last_rev)
  moreover have "\<not> is_space (hd m)" using m unfolding m_def by (rule hd_dropWhile)
  ultimately show ?thesis by simp
qed

lemma answers_insert_Inr:
  "answers_insert row db = Inr db' \<Longrightarrow> db' = db\<lparr>answers := answers db @ [row]\<rparr>"
  by (simp add: answers_insert_def split: if_splits)

lemma submitAnswer_skip:
  "ps_currentQuestion ps = None \<or> trim (ps_answer ps) = [] \<or> ps_hasAnswered ps \<or> ps_isSubmitting ps
     \<Longrightarrow> submitAnswer p ps db i c t = (Skipped, ps, db)"
  by (cases "ps_currentQuestion ps") (auto simp: submitAnswer_def)

lemma submitAnswer_go:
  "ps_currentQuestion ps = Some cq \<Longrightarrow> trim (ps_answer ps) \<noteq> [] \<Longrightarrow> \<not> ps_hasAnswered ps \<Longrightarrow>
   \<not> ps_isSubmitting ps \<Longrightarrow>
   submitAnswer p ps db i c t =
     (case answers_insert (answer_row p ps cq i c t) db of
        Inl e \<Rightarrow> (SubmitFailed e, ps\<lparr>ps_responseTime := None, ps_isSubmitting := False\<rparr>, db)
      | Inr db' \<Rightarrow>
          (Submitted,
           ps\<lparr>ps_responseTime := Some (c - ps_questionStartTime ps), ps_hasAnswered := True,
              ps_isSubmitting := False\<rparr>,
           db'))"
  by (simp add: submitAnswer_def Let_def split: sum.splits)

lemma submitAnswer_result:
  assumes "submitAnswer p ps db i c t = (out, ps', db')"
  shows "(out = Skipped \<and> ps' = ps \<and> db' = db) \<or>
         (\<exists>e. out = SubmitFailed e \<and> db' = db) \<or>
         (\<exists>cq. ps_currentQuestion ps = Some cq \<and> trim (ps_answer ps) \<noteq> [] \<and>
            out = Submitted \<and>
            ps' = ps\<lparr>ps_responseTime := Some (c - ps_questionStartTime ps), ps_hasAnswered := True,
                     ps_isSubmitting := False\<rparr> \<and>
            db' = db\<lparr>answers := answers db @ [answer_row p ps cq i c t]\<rparr>)"
proof (cases "ps_currentQuestion ps = None \<or> trim (ps_answer ps) = [] \<or> ps_hasAnswered ps \<or> ps_isSubmitting ps")
  case True
  from submitAnswer_skip[OF True] assms show ?thesis by simp
next
  case False
  then obtain cq where cq: "ps_currentQuestion ps = Some cq" by auto
  from False have v: "trim (ps_answer ps) \<noteq> []" "\<not> ps_hasAnswered ps" "\<not> ps_isSubmitting ps"
    by simp_all
  show ?thesis
  proof (cases "answers_insert (answer_row p ps cq i c t) db")
    case (Inl e)
    with assms submitAnswer_go[OF cq v, of p db i c t] have "out = SubmitFailed e \<and> db' = db"
      by simp
    then show ?thesis by blast
  next
    case (Inr db2)
    from answers_insert_Inr[OF Inr] Inr assms submitAnswer_go[OF cq v, of p db i c t] cq v
    show ?thesis by simp
  qed
qed


lemma answer_row_fields:
  "a_id (answer_row p ps cq i c t) = i"
  "a_player_id (answer_row p ps cq i c t) = p"
  "a_question_id (answer_row p ps cq i c t) = q_id cq"
  "a_room_id (answer_row p ps cq i c t) = ps_playerRoomIdRef ps"
  "a_text (answer_row p ps cq i c t) = trim (ps_answer ps)"
  "a_response_time (answer_row p ps cq i c t) = c - ps_questionStartTime ps"
  "a_is_correct (answer_row p ps cq i c t) = False"
  "a_submitted_at (answer_row p ps cq i c t) = t"
  by (simp_all add: answer_row_def)

lemma submitAnswer_Submitted:
  assumes "submitAnswer p ps db i c t = (Submitted, ps', db')"
  shows "\<exists>cq. ps_currentQuestion ps = Some cq \<and> trim (ps_answer ps) \<noteq> [] \<and>
            ps' = ps\<lparr>ps_responseTime := Some (c - ps_questionStartTime ps), ps_hasAnswered := True,
                     ps_isSubmitting := False\<rparr> \<and>
            db' = db\<lparr>answers := answers db @ [answer_row p ps cq i c t]\<rparr>"
  using submitAnswer_result[OF assms] by simp

lemma submitAnswer_db_unchanged:
  assumes "fst (submitAnswer p ps db i c t) \<noteq> Submitted"
  shows "snd (snd (submitAnswer p ps db i c t)) = db"
proof -
  obtain out ps' db' where r: "submitAnswer p ps db i c t = (out, ps', db')"
    by (cases "submitAnswer p ps db i c t")
  from submitAnswer_result[OF r] assms r show ?thesis by auto
qed

lemma single_Some_mem: "single xs = Some x \<Longrightarrow> xs = [x]"
  by (cases xs rule: single.cases) simp_all

lemma loadPlayerData_room_ref:
  assumes "loadPlayerData p ps db c = Some ps'"
  shows "\<exists>pl. filter (\<lambda>x. p_id x = p) (players db) = [pl] \<and>
              ps_playerRoomIdRef ps' = Some (p_room_id pl)"
proof (cases "single (filter (\<lambda>x. p_id x = p) (players db))")
  case None
  with assms show ?thesis by (simp add: loadPlayerData_def split: if_splits)
next
  case (Some pl)
  from single_Some_mem[OF Some] have f: "filter (\<lambda>x. p_id x = p) (players db) = [pl]" .
  from assms Some have "ps_playerRoomIdRef ps' = Some (p_room_id pl)"
    by (auto simp: loadPlayerData_def split: if_splits option.splits)
  with f show ?thesis by blast
qed

text \<open>
  C10. When the typed answer is empty after trimming, \<open>submitAnswer\<close> returns at once and
  changes neither page nor database; a call that does not end with \<open>Submitted\<close> stores
  nothing. A call that ends with \<open>Submitted\<close> has appended one row: its text is the typed
  answer without the white space at its two ends (the typed answer is white space, the text,
  white space, and the text neither starts nor ends with white space), \<open>is_correct\<close> is false,
  and its \<open>room_id\<close> is the one held in \<open>playerRoomIdRef\<close>. On a page that
  \<open>loadPlayerData\<close> has loaded for the player, that is the \<open>room_id\<close> of the player's row.
\<close>

theorem submitAnswer_inserted_row:
  "(trim (ps_answer ps) = [] \<longrightarrow> submitAnswer p ps db i c t = (Skipped, ps, db)) \<and>
   (fst (submitAnswer p ps db i c t) \<noteq> Submitted \<longrightarrow> snd (snd (submitAnswer p ps db i c t)) = db) \<and>
   (\<forall>ps' db'. submitAnswer p ps db i c t = (Submitted, ps', db') \<longrightarrow>
      (\<exists>row l r. answers db' = answers db @ [row] \<and>
         a_text row = trim (ps_answer ps) \<and> a_text row \<noteq> [] \<and>
         ps_answer ps = l @ a_text row @ r \<and> list_all is_space l \<and> list_all is_space r \<and>
         \<not> is_space (hd (a_text row)) \<and> \<not> is_space (last (a_text row)) \<and>
         a_is_correct row = False \<and> a_room_id row = ps_playerRoomIdRef ps \<and>
         a_player_id row = p \<and> a_id row = i)) \<and>
   (\<forall>ps0 c0 loaded typed ps' db'.
      loadPlayerData p ps0 db c0 = Some loaded \<and> ps = loaded\<lparr>ps_answer := typed\<rparr> \<and>
      submitAnswer p ps db i c t = (Submitted, ps', db') \<longrightarrow>
      (\<exists>pl. filter (\<lambda>x. p_id x = p) (players db) = [pl] \<and>
            a_room_id (last (answers db')) = Some (p_room_id pl)))"
proof (intro conjI impI allI)
  assume "trim (ps_answer ps) = []"
  then show "submitAnswer p ps db i c t = (Skipped, ps, db)" by (simp add: submitAnswer_skip)
next
  assume "fst (submitAnswer p ps db i c t) \<noteq> Submitted"
  then show "snd (snd (submitAnswer p ps db i c t)) = db" by (rule submitAnswer_db_unchanged)
next
  fix ps' db'
  assume s: "submitAnswer p ps db i c t = (Submitted, ps', db')"
  from submitAnswer_Submitted[OF s] obtain cq where
    ne: "trim (ps_answer ps) \<noteq> []" and
    db': "db' = db\<lparr>answers := answers db @ [answer_row p ps cq i c t]\<rparr>" by blast
  from trim_decomp[of "ps_answer ps"] obtain l r where
    d: "ps_answer ps = l @ trim (ps_answer ps) @ r" "list_all is_space l" "list_all is_space r"
    by blast
  define row where "row = answer_row p ps cq i c t"
  have f1: "answers db' = answers db @ [row]" by (simp add: db' row_def)
  have f2: "a_text row = trim (ps_answer ps)" by (simp add: row_def answer_row_fields)
  have f3: "a_text row \<noteq> []" using ne unfolding f2 .
  have f4: "ps_answer ps = l @ a_text row @ r" using d(1) unfolding f2 .
  have f5: "\<not> is_space (hd (a_text row)) \<and> \<not> is_space (last (a_text row))"
    using trim_no_outer_space[OF ne] unfolding f2 .
  have f6: "a_is_correct row = False \<and> a_room_id row = ps_playerRoomIdRef ps \<and>
         a_player_id row = p \<and> a_id row = i"
    by (simp add: row_def answer_row_fields)
  from f1 f2 f3 f4 d(2,3) f5 f6
  show "\<exists>row l r. answers db' = answers db @ [row] \<and>
         a_text row = trim (ps_answer ps) \<and> a_text row \<noteq> [] \<and>
         ps_answer ps = l @ a_text row @ r \<and> list_all is_space l \<and> list_all is_space r \<and>
         \<not> is_space (hd (a_text row)) \<and> \<not> is_space (last (a_text row)) \<and>
         a_is_correct row = False \<and> a_room_id row = ps_playerRoomIdRef ps \<and>
         a_player_id row = p \<and> a_id row = i"
    by blast
next
  fix ps0 c0 loaded typed ps' db'
  assume h: "loadPlayerData p ps0 db c0 = Some loaded \<and> ps = loaded\<lparr>ps_answer := typed\<rparr> \<and>
      submitAnswer p ps db i c t = (Submitted, ps', db')"
  from h loadPlayerData_room_ref[of p ps0 db c0 loaded] obtain pl where
    pl: "filter (\<lambda>x. p_id x = p) (players db) = [pl]"
      "ps_playerRoomIdRef loaded = Some (p_room_id pl)" by blast
  from h have "ps = loaded\<lparr>ps_answer := typed\<rparr>" by blast
  then have r: "ps_playerRoomIdRef ps = ps_playerRoomIdRef loaded" by simp
  from h have s: "submitAnswer p ps db i c t = (Submitted, ps', db')" by blast
  from submitAnswer_Submitted[OF s] obtain cq where
    "db' = db\<lparr>answers := answers db @ [answer_row p ps cq i c t]\<rparr>" by blast
  then have "a_room_id (last (answers db')) = ps_playerRoomIdRef ps"
    by (simp add: answer_row_fields)
  with pl r show "\<exists>pl. filter (\<lambda>x. p_id x = p) (players db) = [pl] \<and>
            a_room_id (last (answers db')) = Some (p_room_id pl)"
    by simp
qed

lemma demo_submit:
  "submitAnswer ''p4'' demo_play demo_db_dave ''a4'' 2500 12 =
     (Submitted,
      demo_play\<lparr>ps_responseTime := Some 1500, ps_hasAnswered := True, ps_isSubmitting := False\<rparr>,
      demo_db_dave\<lparr>answers := answers demo_db_dave @
        [\<lparr>a_id = ''a4'', a_player_id = ''p4'', a_question_id = ''q1'', a_room_id = Some ''r1'',
          a_text = ''four'', a_response_time = 1500, a_is_correct = False, a_submitted_at = 12\<rparr>]\<rparr>)"
  by (simp add: submitAnswer_def answer_row_def answers_insert_def demo_play_def demo_db_dave_def
        demo_db_def trim_def is_space_def Let_def)

lemma demo_blank_answer: "trim (ps_answer (demo_play\<lparr>ps_answer := ''   ''\<rparr>)) = []"
  by (simp add: trim_def is_space_def)

lemma demo_play_loaded:
  "loadPlayerData ''p4'' fresh_play demo_db_dave 1000 = Some (demo_play\<lparr>ps_answer := []\<rparr>)"
  by (simp add: loadPlayerData_def fresh_play_def demo_play_def demo_db_dave_def demo_db_def)

theorem submitAnswer_inserted_row_witness:
  "submitAnswer ''p4'' (demo_play\<lparr>ps_answer := ''   ''\<rparr>) demo_db_dave ''a4'' 2500 12
     = (Skipped, demo_play\<lparr>ps_answer := ''   ''\<rparr>, demo_db_dave) \<and>
   loadPlayerData ''p4'' fresh_play demo_db_dave 1000 = Some (demo_play\<lparr>ps_answer := []\<rparr>) \<and>
   demo_play = (demo_play\<lparr>ps_answer := []\<rparr>)\<lparr>ps_answer := '' four  ''\<rparr> \<and>
   fst (submitAnswer ''p4'' demo_play demo_db_dave ''a4'' 2500 12) = Submitted \<and>
   a_text (last (answers (snd (snd (submitAnswer ''p4'' demo_play demo_db_dave ''a4'' 2500 12)))))
     = ''four'' \<and>
   a_is_correct (last (answers (snd (snd (submitAnswer ''p4'' demo_play demo_db_dave ''a4'' 2500 12)))))
     = False \<and>
   a_room_id (last (answers (snd (snd (submitAnswer ''p4'' demo_play demo_db_dave ''a4'' 2500 12)))))
     = Some ''r1'' \<and>
   map p_room_id (filter (\<lambda>x. p_id x = ''p4'') (players demo_db_dave)) = [''r1'']"
proof -
  note inst = submitAnswer_inserted_row[of _ "''p4''" demo_db_dave "''a4''" 2500 12]
  from inst[of "demo_play\<lparr>ps_answer := ''   ''\<rparr>"] demo_blank_answer
  have a: "submitAnswer ''p4'' (demo_play\<lparr>ps_answer := ''   ''\<rparr>) demo_db_dave ''a4'' 2500 12
     = (Skipped, demo_play\<lparr>ps_answer := ''   ''\<rparr>, demo_db_dave)"
    by blast
  have e: "demo_play = (demo_play\<lparr>ps_answer := []\<rparr>)\<lparr>ps_answer := '' four  ''\<rparr>"
    by (simp add: demo_play_def)
  from inst[of demo_play] demo_submit
  obtain row where
    "answers (snd (snd (submitAnswer ''p4'' demo_play demo_db_dave ''a4'' 2500 12)))
       = answers demo_db_dave @ [row]"
    and r: "a_text row = trim (ps_answer demo_play)" "a_is_correct row = False"
    by auto
  then have l: "last (answers (snd (snd (submitAnswer ''p4'' demo_play demo_db_dave ''a4'' 2500 12)))) = row"
    by simp
  have p: "map p_room_id (filter (\<lambda>x. p_id x = ''p4'') (players demo_db_dave)) = [''r1'']"
    by (simp add: demo_db_dave_def demo_db_def)
  from inst[of demo_play] demo_play_loaded e demo_submit
  obtain pl where "filter (\<lambda>x. p_id x = ''p4'') (players demo_db_dave) = [pl]"
    "a_room_id (last (answers (snd (snd (submitAnswer ''p4'' demo_play demo_db_dave ''a4'' 2500 12)))))
       = Some (p_room_id pl)"
    by (metis snd_conv)
  with p have q: "a_room_id (last (answers (snd (snd (submitAnswer ''p4'' demo_play demo_db_dave ''a4'' 2500 12)))))
     = Some ''r1''" by simp
  have t: "trim (ps_answer demo_play) = ''four''"
    by (simp add: demo_play_def trim_def is_space_def)
  from a demo_play_loaded e l r t p q demo_submit show ?thesis by simp
qed

lemma answers_of_append:
  "answers_of p q (db\<lparr>answers := answers db @ [row]\<rparr>) =
     answers_of p q db @ (if a_player_id row = p \<and> a_question_id row = q then [row] else [])"
  by (simp add: answers_of_def)

lemma single_length_one: "length xs = 1 \<Longrightarrow> \<exists>x. single xs = Some x"
  by (cases xs rule: single.cases) simp_all

lemma loadPlayerData_hasAnswered:
  assumes "loadPlayerData p ps db c = Some loaded"
    and "ps_currentQuestion loaded = Some q"
    and "length (answers_of p (q_id q) db) = 1"
  shows "ps_hasAnswered loaded"
proof -
  from assms(1) obtain pl where pl: "single (filter (\<lambda>x. p_id x = p) (players db)) = Some pl"
    and ne: "p \<noteq> []"
    by (cases "single (filter (\<lambda>x. p_id x = p) (players db))")
       (auto simp: loadPlayerData_def split: if_splits)
  show ?thesis
  proof (cases "single (filter (\<lambda>x. q_room_id x = p_room_id pl \<and> q_is_active x) (questions db))")
    case None
    with assms(1) pl ne have "ps_currentQuestion loaded = None"
      by (auto simp: loadPlayerData_def)
    with assms(2) show ?thesis by simp
  next
    case (Some qd)
    show ?thesis
    proof (cases "single (filter (\<lambda>a. a_player_id a = p \<and> a_question_id a = q_id qd) (answers db))")
      case None
      with assms(1) pl ne Some have "ps_currentQuestion loaded = Some qd"
        by (auto simp: loadPlayerData_def)
      with assms(2) have "qd = q" by simp
      with single_length_one[OF assms(3)] None show ?thesis by (simp add: answers_of_def)
    next
      case (Some a)
      with assms(1) pl ne \<open>single (filter (\<lambda>x. q_room_id x = p_room_id pl \<and> q_is_active x) (questions db)) = Some qd\<close>
      show ?thesis by (auto simp: loadPlayerData_def)
    qed
  qed
qed

text \<open>
  C2. Once \<open>submitAnswer\<close> has stored an answer for the player and the question on screen, a
  second call on that page, whatever is typed by then, is stopped by the \<open>hasAnswered\<close> guard:
  it returns silently, raises no error and stores nothing. A pair of player and question
  without an answer before the two calls has exactly one after them. The same holds for a
  second call on a page that was loaded again in between and shows that question, since
  loading finds the stored answer and sets the guard.
\<close>

theorem submitAnswer_twice:
  assumes "submitAnswer p ps db i c t = (Submitted, ps1, db1)"
    and "ps_currentQuestion ps = Some cq"
    and "answers_of p (q_id cq) db = []"
  shows "submitAnswer p (ps1\<lparr>ps_answer := txt\<rparr>) db1 i2 c2 t2 = (Skipped, ps1\<lparr>ps_answer := txt\<rparr>, db1) \<and>
         length (answers_of p (q_id cq) db1) = 1 \<and>
         (\<forall>ps0 c0 loaded.
            loadPlayerData p ps0 db1 c0 = Some loaded \<and> ps_currentQuestion loaded = Some cq \<longrightarrow>
            submitAnswer p (loaded\<lparr>ps_answer := txt\<rparr>) db1 i2 c2 t2
              = (Skipped, loaded\<lparr>ps_answer := txt\<rparr>, db1))"
proof -
  from submitAnswer_Submitted[OF assms(1)] assms(2)
  have ps1: "ps1 = ps\<lparr>ps_responseTime := Some (c - ps_questionStartTime ps), ps_hasAnswered := True,
                     ps_isSubmitting := False\<rparr>"
    and db1: "db1 = db\<lparr>answers := answers db @ [answer_row p ps cq i c t]\<rparr>"
    by auto
  have "ps_hasAnswered (ps1\<lparr>ps_answer := txt\<rparr>)" by (simp add: ps1)
  then have 1: "submitAnswer p (ps1\<lparr>ps_answer := txt\<rparr>) db1 i2 c2 t2 = (Skipped, ps1\<lparr>ps_answer := txt\<rparr>, db1)"
    by (simp add: submitAnswer_skip)
  have 2: "length (answers_of p (q_id cq) db1) = 1"
    unfolding db1 answers_of_append by (simp add: assms(3) answer_row_fields)
  have 3: "submitAnswer p (loaded\<lparr>ps_answer := txt\<rparr>) db1 i2 c2 t2
              = (Skipped, loaded\<lparr>ps_answer := txt\<rparr>, db1)"
    if h: "loadPlayerData p ps0 db1 c0 = Some loaded \<and> ps_currentQuestion loaded = Some cq"
    for ps0 c0 loaded
  proof -
    from h have "ps_hasAnswered loaded" using loadPlayerData_hasAnswered[OF _ _ 2] by blast
    then have "ps_hasAnswered (loaded\<lparr>ps_answer := txt\<rparr>)" by simp
    then show ?thesis by (simp add: submitAnswer_skip)
  qed
  from 1 2 3 show ?thesis by blast
qed

lemma demo_play_question:
  "ps_currentQuestion demo_play =
     Some \<lparr>q_id = ''q1'', q_room_id = ''r1'', q_text = ''2+2?'', q_correct_answer = Some ''4'',
           q_is_active = True, q_created_at = 6\<rparr>"
  by (simp add: demo_play_def)

lemma demo_dave_none: 
  "answers_of ''p4'' (q_id \<lparr>q_id = ''q1'', q_room_id = ''r1'', q_text = ''2+2?'', q_correct_answer = Some ''4'',
           q_is_active = True, q_created_at = 6\<rparr>) demo_db_dave = []"
  by (simp add: answers_of_def demo_db_dave_def demo_db_def)

lemma demo_reloaded:
  "loadPlayerData ''p4'' fresh_play
     (demo_db_dave\<lparr>answers := answers demo_db_dave @
        [\<lparr>a_id = ''a4'', a_player_id = ''p4'', a_question_id = ''q1'', a_room_id = Some ''r1'',
          a_text = ''four'', a_response_time = 1500, a_is_correct = False, a_submitted_at = 12\<rparr>]\<rparr>)
     5000
   = Some (demo_play\<lparr>ps_questionStartTime := 5000, ps_hasAnswered := True, ps_answer := ''four'',
                      ps_responseTime := Some 1500\<rparr>)"
  by (simp add: loadPlayerData_def fresh_play_def demo_play_def demo_db_dave_def demo_db_def)

theorem submitAnswer_twice_witness:
  "submitAnswer ''p4'' demo_play demo_db_dave ''a4'' 2500 12 =
     (Submitted,
      demo_play\<lparr>ps_responseTime := Some 1500, ps_hasAnswered := True, ps_isSubmitting := False\<rparr>,
      demo_db_dave\<lparr>answers := answers demo_db_dave @
        [\<lparr>a_id = ''a4'', a_player_id = ''p4'', a_question_id = ''q1'', a_room_id = Some ''r1'',
          a_text = ''four'', a_response_time = 1500, a_is_correct = False, a_submitted_at = 12\<rparr>]\<rparr>) \<and>
   answers_of ''p4'' ''q1'' demo_db_dave = [] \<and>
   fst (submitAnswer ''p4''
          (demo_play\<lparr>ps_responseTime := Some 1500, ps_hasAnswered := True, ps_isSubmitting := False,
                      ps_answer := ''4''\<rparr>)
          (demo_db_dave\<lparr>answers := answers demo_db_dave @
             [\<lparr>a_id = ''a4'', a_player_id = ''p4'', a_question_id = ''q1'', a_room_id = Some ''r1'',
               a_text = ''four'', a_response_time = 1500, a_is_correct = False, a_submitted_at = 12\<rparr>]\<rparr>)
          ''a5'' 4000 13) = Skipped \<and>
   length (answers_of ''p4'' ''q1''
     (demo_db_dave\<lparr>answers := answers demo_db_dave @
        [\<lparr>a_id = ''a4'', a_player_id = ''p4'', a_question_id = ''q1'', a_room_id = Some ''r1'',
          a_text = ''four'', a_response_time = 1500, a_is_correct = False, a_submitted_at = 12\<rparr>]\<rparr>)) = 1 \<and>
   fst (submitAnswer ''p4''
          (demo_play\<lparr>ps_questionStartTime := 5000, ps_hasAnswered := True, ps_answer := ''four'',
                      ps_responseTime := Some 1500, ps_answer := ''4''\<rparr>)
          (demo_db_dave\<lparr>answers := answers demo_db_dave @
             [\<lparr>a_id = ''a4'', a_player_id = ''p4'', a_question_id = ''q1'', a_room_id = Some ''r1'',
               a_text = ''four'', a_response_time = 1500, a_is_correct = False, a_submitted_at = 12\<rparr>]\<rparr>)
          ''a5'' 9000 13) = Skipped"
proof -
  note inst = submitAnswer_twice[OF demo_submit demo_play_question demo_dave_none, of "''4''" "''a5''" _ 13]
  have q: "ps_currentQuestion (demo_play\<lparr>ps_questionStartTime := 5000, ps_hasAnswered := True,
             ps_answer := ''four'', ps_responseTime := Some 1500\<rparr>)
           = Some \<lparr>q_id = ''q1'', q_room_id = ''r1'', q_text = ''2+2?'', q_correct_answer = Some ''4'',
                   q_is_active = True, q_created_at = 6\<rparr>"
    by (simp add: demo_play_def)
  from inst[of 9000] demo_reloaded q
  have r: "fst (submitAnswer ''p4''
          (demo_play\<lparr>ps_questionStartTime := 5000, ps_hasAnswered := True, ps_answer := ''four'',
                      ps_responseTime := Some 1500, ps_answer := ''4''\<rparr>)
          (demo_db_dave\<lparr>answers := answers demo_db_dave @
             [\<lparr>a_id = ''a4'', a_player_id = ''p4'', a_question_id = ''q1'', a_room_id = Some ''r1'',
               a_text = ''four'', a_response_time = 1500, a_is_correct = False, a_submitted_at = 12\<rparr>]\<rparr>)
          ''a5'' 9000 13) = Skipped"
    by (metis fst_conv)
  from inst[of 4000] demo_submit demo_dave_none r show ?thesis by simp
qed

text \<open>
  C2 on the sample page: the second call of Dave ends with the silent \<open>Skipped\<close>, not with a
  failure, and leaves the database of the first call.
\<close>

theorem submitAnswer_twice_counterexample:
  "fst (submitAnswer ''p4''
          (fst (snd (submitAnswer ''p4'' demo_play demo_db_dave ''a4'' 2500 12)))
          (snd (snd (submitAnswer ''p4'' demo_play demo_db_dave ''a4'' 2500 12)))
          ''a5'' 4000 13) = Skipped \<and>
   snd (snd (submitAnswer ''p4''
          (fst (snd (submitAnswer ''p4'' demo_play demo_db_dave ''a4'' 2500 12)))
          (snd (snd (submitAnswer ''p4'' demo_play demo_db_dave ''a4'' 2500 12)))
          ''a5'' 4000 13))
     = snd (snd (submitAnswer ''p4'' demo_play demo_db_dave ''a4'' 2500 12))"
  unfolding demo_submit by (simp add: submitAnswer_skip)

section \<open>Creating a room\<close>

lemma substring_ordered:
  "start \<le> stop \<Longrightarrow> substring s start stop = take (stop - start) (drop start s)"
proof -
  assume le: "start \<le> stop"
  let ?n = "length s"
  have o: "min start ?n \<le> min stop ?n" using le by simp
  then have s: "substring s start stop = take (min stop ?n - min start ?n) (drop (min start ?n) s)"
    by (simp add: substring_def Let_def max_absorb2 min_absorb1)
  show ?thesis
  proof (cases "start \<le> ?n")
    case True
    then have a: "min start ?n = start" by simp
    show ?thesis
    proof (cases "stop \<le> ?n")
      case True
      then show ?thesis by (simp add: s a)
    next
      case False
      then have "min stop ?n = ?n" by simp
      then show ?thesis using False by (simp add: s a)
    qed
  next
    case False
    then show ?thesis using le by (simp add: s)
  qed
qed

lemma length_generateRoomCode: "length (generateRoomCode rnd) = min 6 (length rnd - 2)"
  by (simp add: generateRoomCode_def toUpperCase_def substring_ordered)

lemma createRoom_collision:
  "generateRoomCode rnd \<in> set (map r_code (rooms db)) \<Longrightarrow>
   createRoom db rnd i h t = (Inl UniqueViolation, db)"
  by (simp add: createRoom_def rooms_insert_def room_row_def)

lemma createRoom_fresh:
  "generateRoomCode rnd \<notin> set (map r_code (rooms db)) \<Longrightarrow> i \<notin> set (map r_id (rooms db)) \<Longrightarrow>
   createRoom db rnd i h t = (Inr i, db\<lparr>rooms := rooms db @ [room_row rnd i h t]\<rparr>)"
  by (simp add: createRoom_def rooms_insert_def room_row_def)

lemma createRoom_Inr:
  assumes "createRoom db rnd i h t = (Inr rid, db')"
  shows "rid = i \<and> db' = db\<lparr>rooms := rooms db @ [room_row rnd i h t]\<rparr> \<and>
         generateRoomCode rnd \<notin> set (map r_code (rooms db)) \<and> i \<notin> set (map r_id (rooms db))"
proof (cases "generateRoomCode rnd \<in> set (map r_code (rooms db))")
  case True
  from createRoom_collision[OF True] assms show ?thesis by simp
next
  case False
  show ?thesis
  proof (cases "i \<in> set (map r_id (rooms db))")
    case True
    with assms show ?thesis by (simp add: createRoom_def rooms_insert_def room_row_def)
  next
    case i: False
    from createRoom_fresh[OF False i, of h t] assms False i show ?thesis by simp
  qed
qed

text \<open>
  C6. \<open>createRoom\<close> makes one attempt: it generates one code and inserts the room. When the
  code is that of a stored room the insert is rejected and \<open>createRoom\<close> fails, without
  another attempt and without a new room. When the code and the generated id are new the call
  succeeds. A room it creates is stored last with the generated code, which no other stored
  room has, so room codes that were pairwise different stay so. The code has exactly 6
  characters whenever the base-36 rendering of the random number has at least 8.
\<close>

theorem createRoom_single_attempt:
  "(generateRoomCode rnd \<in> set (map r_code (rooms db)) \<longrightarrow>
      createRoom db rnd i h t = (Inl UniqueViolation, db)) \<and>
   (generateRoomCode rnd \<notin> set (map r_code (rooms db)) \<and> i \<notin> set (map r_id (rooms db)) \<longrightarrow>
      fst (createRoom db rnd i h t) = Inr i) \<and>
   (\<forall>rid db'. createRoom db rnd i h t = (Inr rid, db') \<longrightarrow>
      (\<exists>room. rooms db' = rooms db @ [room] \<and> r_id room = rid \<and>
         r_code room = generateRoomCode rnd \<and>
         r_code room \<notin> set (map r_code (rooms db)) \<and>
         (distinct (map r_code (rooms db)) \<longrightarrow> distinct (map r_code (rooms db'))))) \<and>
   (8 \<le> length rnd \<longrightarrow> length (generateRoomCode rnd) = 6)"
proof (intro conjI impI allI)
  assume "generateRoomCode rnd \<in> set (map r_code (rooms db))"
  then show "createRoom db rnd i h t = (Inl UniqueViolation, db)" by (rule createRoom_collision)
next
  assume "generateRoomCode rnd \<notin> set (map r_code (rooms db)) \<and> i \<notin> set (map r_id (rooms db))"
  then show "fst (createRoom db rnd i h t) = Inr i" by (simp add: createRoom_fresh)
next
  fix rid db'
  assume c: "createRoom db rnd i h t = (Inr rid, db')"
  from createRoom_Inr[OF c]
  have rid: "rid = i" and db': "db' = db\<lparr>rooms := rooms db @ [room_row rnd i h t]\<rparr>"
    and fresh: "generateRoomCode rnd \<notin> set (map r_code (rooms db))" by simp_all
  define room where "room = room_row rnd i h t"
  have f1: "rooms db' = rooms db @ [room]" by (simp add: db' room_def)
  have f2: "r_id room = rid \<and> r_code room = generateRoomCode rnd"
    by (simp add: room_def room_row_def rid)
  have f3: "r_code room \<notin> set (map r_code (rooms db))" using fresh f2 by simp
  have f4: "distinct (map r_code (rooms db)) \<longrightarrow> distinct (map r_code (rooms db'))"
    using f3 by (simp add: f1)
  from f1 f2 f3 f4
  show "\<exists>room. rooms db' = rooms db @ [room] \<and> r_id room = rid \<and>
         r_code room = generateRoomCode rnd \<and>
         r_code room \<notin> set (map r_code (rooms db)) \<and>
         (distinct (map r_code (rooms db)) \<longrightarrow> distinct (map r_code (rooms db')))"
    by blast
next
  assume "8 \<le> length rnd"
  then show "length (generateRoomCode rnd) = 6" by (simp add: length_generateRoomCode)
qed

lemma demo_codes:
  "generateRoomCode ''0.ab12cdxyz'' = ''AB12CD''"
  "generateRoomCode ''0.k3j9x7abcd'' = ''K3J9X7''"
  "generateRoomCode ''0.i'' = ''I''"
  by code_simp+

lemma demo_rooms:
  "map r_code (rooms demo_db) = [''AB12CD'', ''ZZ99YY'']"
  "map r_id (rooms demo_db) = [''r1'', ''r2'']"
  by (simp_all add: demo_db_def)

theorem createRoom_single_attempt_witness:
  "createRoom demo_db ''0.ab12cdxyz'' ''r3'' ''h3'' 30 = (Inl UniqueViolation, demo_db) \<and>
   fst (createRoom demo_db ''0.k3j9x7abcd'' ''r3'' ''h3'' 30) = Inr ''r3'' \<and>
   map r_code (rooms (snd (createRoom demo_db ''0.k3j9x7abcd'' ''r3'' ''h3'' 30)))
     = [''AB12CD'', ''ZZ99YY'', ''K3J9X7''] \<and>
   length (generateRoomCode ''0.k3j9x7abcd'') = 6"
proof -
  from createRoom_single_attempt[of "''0.ab12cdxyz''" demo_db "''r3''" "''h3''" 30]
  have a: "createRoom demo_db ''0.ab12cdxyz'' ''r3'' ''h3'' 30 = (Inl UniqueViolation, demo_db)"
    by (simp add: demo_codes demo_rooms)
  from createRoom_single_attempt[of "''0.k3j9x7abcd''" demo_db "''r3''" "''h3''" 30]
  have b: "fst (createRoom demo_db ''0.k3j9x7abcd'' ''r3'' ''h3'' 30) = Inr ''r3''"
    and c: "length (generateRoomCode ''0.k3j9x7abcd'') = 6"
    by (simp_all add: demo_codes demo_rooms)
  have d: "map r_code (rooms (snd (createRoom demo_db ''0.k3j9x7abcd'' ''r3'' ''h3'' 30)))
     = [''AB12CD'', ''ZZ99YY'', ''K3J9X7'']"
    by (simp add: createRoom_fresh demo_codes demo_rooms room_row_def)
  from a b c d show ?thesis by simp
qed

text \<open>
  C6 on the sample: a generated code that collides makes the call fail at once; and from the
  rendering \<open>0.i\<close> of the random number one half a room is created with the one-character
  code \<open>I\<close>.
\<close>

theorem createRoom_single_attempt_counterexample:
  "createRoom demo_db ''0.ab12cdxyz'' ''r3'' ''h3'' 30 = (Inl UniqueViolation, demo_db) \<and>
   fst (createRoom demo_db ''0.i'' ''r3'' ''h3'' 30) = Inr ''r3'' \<and>
   map r_code (rooms (snd (createRoom demo_db ''0.i'' ''r3'' ''h3'' 30)))
     = [''AB12CD'', ''ZZ99YY'', ''I'']"
  by (simp add: createRoom_collision createRoom_fresh demo_codes demo_rooms room_row_def)

section \<open>Ending the game\<close>











section \<open>Marking an answer correct\<close>

text \<open>
  An answer that the page shows as correct is left alone; otherwise the answer is marked and
  the player's rows get the score shown with the answer on the page plus one.
\<close>

lemma markAnswerCorrect_already_correct:
  "a_is_correct (ha_row answer) \<Longrightarrow> markAnswerCorrect roomId answer hs db = (hs, db)"
  by (simp add: markAnswerCorrect_def)

lemma markAnswerCorrect_db:
  "\<not> a_is_correct (ha_row answer) \<Longrightarrow>
   snd (markAnswerCorrect roomId answer hs db) =
     players_set_score (a_player_id (ha_row answer))
       ((case ha_player answer of Some p \<Rightarrow> p_score p | None \<Rightarrow> 0) + 1)
       (answers_set_correct (a_id (ha_row answer)) db)"
  by (simp add: markAnswerCorrect_def Let_def)

lemma markAnswerCorrect_current_snapshot:
  assumes "\<not> a_is_correct (ha_row answer)"
    and "ha_player answer = Some pl"
    and "p \<in> set (players (snd (markAnswerCorrect roomId answer hs db)))"
    and "p_id p = a_player_id (ha_row answer)"
  shows "p_score p = p_score pl + 1"
proof -
  from assms(1,2,3)
  have "p \<in> set (map (\<lambda>p. if p_id p = a_player_id (ha_row answer)
                            then p\<lparr>p_score := p_score pl + 1\<rparr> else p) (players db))"
    by (simp add: markAnswerCorrect_db players_set_score_def answers_set_correct_def)
  from set_score_rows[OF this assms(4)] show ?thesis .
qed

lemma demo_adjusted_eval:
  "demo_adjusted =
     (demo_host\<lparr>hs_players :=
        [\<lparr>p_id = ''p1'', p_pseudo = ''Alice'', p_room_id = ''r1'', p_score = 1,
          p_is_connected = True, p_joined_at = 3\<rparr>,
         \<lparr>p_id = ''p2'', p_pseudo = ''Bob'', p_room_id = ''r1'', p_score = 0,
          p_is_connected = True, p_joined_at = 4\<rparr>]\<rparr>,
      demo_db\<lparr>players :=
        [\<lparr>p_id = ''p1'', p_pseudo = ''Alice'', p_room_id = ''r1'', p_score = 1,
          p_is_connected = True, p_joined_at = 3\<rparr>,
         \<lparr>p_id = ''p2'', p_pseudo = ''Bob'', p_room_id = ''r1'', p_score = 0,
          p_is_connected = True, p_joined_at = 4\<rparr>,
         \<lparr>p_id = ''p3'', p_pseudo = ''Carol'', p_room_id = ''r2'', p_score = 1,
          p_is_connected = True, p_joined_at = 5\<rparr>]\<rparr>)"
  by (simp add: demo_adjusted_def updatePlayerScore_def players_set_score_def loadRoomData_def rooms_select_policy_def
        demo_host_eval demo_db_def Let_def)

text \<open>
  On the sample as loaded, marking Alice's answer raises her score from 0 to 1 and reloads the
  answers, which now show the answer as correct; marking the reloaded answer changes nothing.
\<close>

lemma demo_mark_twice:
  "map p_score (filter (\<lambda>p. p_id p = ''p1'')
     (players (snd (markAnswerCorrect ''r1'' (hd (hs_answers demo_host)) demo_host demo_db)))) = [1] \<and>
   map (\<lambda>a. (a_id (ha_row a), a_is_correct (ha_row a)))
     (hs_answers (fst (markAnswerCorrect ''r1'' (hd (hs_answers demo_host)) demo_host demo_db)))
     = [(''a1'', True), (''a2'', False)] \<and>
   markAnswerCorrect ''r1''
     (hd (hs_answers (fst (markAnswerCorrect ''r1'' (hd (hs_answers demo_host)) demo_host demo_db))))
     (fst (markAnswerCorrect ''r1'' (hd (hs_answers demo_host)) demo_host demo_db))
     (snd (markAnswerCorrect ''r1'' (hd (hs_answers demo_host)) demo_host demo_db))
   = markAnswerCorrect ''r1'' (hd (hs_answers demo_host)) demo_host demo_db"
  by (simp add: demo_host_eval markAnswerCorrect_def players_set_score_def answers_set_correct_def
        loadRoomData_def rooms_select_policy_def loadAnswersForQuestion_def demo_db_def Let_def)

text \<open>
  C3. On the sample, after the host has given Alice a point by hand: her stored score is 1,
  while the answers on the page still carry her row with score 0. Marking her answer correct
  then sets the answer's flag and writes the score 0 + 1, so the stored score is 1 before
  and 1 after the call.
\<close>

theorem markAnswerCorrect_stale_snapshot:
  "map p_score (filter (\<lambda>p. p_id p = ''p1'') (players demo_db)) = [0] \<and>
   map p_score (filter (\<lambda>p. p_id p = ''p1'') (players (snd demo_adjusted))) = [1] \<and>
   hs_answers (fst demo_adjusted) = hs_answers demo_host \<and>
   a_id (ha_row (hd (hs_answers (fst demo_adjusted)))) = ''a1'' \<and>
   a_player_id (ha_row (hd (hs_answers (fst demo_adjusted)))) = ''p1'' \<and>
   a_is_correct (ha_row (hd (hs_answers (fst demo_adjusted)))) = False \<and>
   map a_is_correct (filter (\<lambda>a. a_id a = ''a1'')
     (answers (snd (markAnswerCorrect ''r1'' (hd (hs_answers (fst demo_adjusted)))
                      (fst demo_adjusted) (snd demo_adjusted))))) = [True] \<and>
   map p_score (filter (\<lambda>p. p_id p = ''p1'')
     (players (snd (markAnswerCorrect ''r1'' (hd (hs_answers (fst demo_adjusted)))
                      (fst demo_adjusted) (snd demo_adjusted))))) = [1]"
  by (simp add: demo_adjusted_eval demo_host_eval markAnswerCorrect_db players_set_score_def
        answers_set_correct_def demo_db_def)

end
